theory Spec2Isabelle
  imports Main
begin

section \<open>Host values\<close>

text \<open>
  The tag function receives the template fragments \<open>strs\<close> and the interpolated host
  values \<open>vals\<close> (the holes). A host value is an arbitrary JavaScript value; the model
  keeps the kinds the code tells apart with \<open>typeof\<close>, \<open>=== undefined\<close> and \<open>in\<close>:
  \<open>undefined\<close>, \<open>null\<close> (whose \<open>typeof\<close> is \<open>'object'\<close>), booleans, numbers, strings
  and objects. An object is a reference \<open>Obj r\<close>; what it exposes is looked up in the
  host environment below. Numbers are IEEE doubles in the host; the model leaves their
  type \<open>'n\<close> open and takes the host's number primitives as parameters.
\<close>

datatype 'n val = Undefined | Null | Bool bool | Num 'n | Str string | Obj nat

datatype jstype = TUndefined | TObject | TBoolean | TNumber | TString

fun typeof :: "'n val \<Rightarrow> jstype" where
  "typeof Undefined = TUndefined"
| "typeof Null = TObject"
| "typeof (Bool b) = TBoolean"
| "typeof (Num n) = TNumber"
| "typeof (Str s) = TString"
| "typeof (Obj r) = TObject"

text \<open>
  Everything the code throws itself is \<open>new Error(message)\<close>; the message prefix
  (\<open>Syntax error:\<close>, \<open>Operator error:\<close>, \<open>No operators supplied\<close>) tells the kinds apart.
  \<open>TypeError\<close> is what the host raises for \<open>p in null\<close>, \<open>null.constructor\<close> and
  \<open>undefined.toString()\<close>. \<open>Thrown x\<close> is an exception raised inside a method of a host
  object, tagged with its origin. \<open>Unmodelled\<close> marks the one outcome of the evaluator
  that the value model cannot express (see \<open>evalBinArray\<close>).
\<close>

datatype error = Error string | TypeError | Thrown string | Unmodelled

text \<open>
  The host environment: the number primitives and, for every object reference, the
  properties the evaluator looks up. \<open>inst h r p = Some f\<close> says that \<open>p in obj\<close> holds
  and that \<open>obj[p](args)\<close> returns \<open>f args\<close> (\<open>Inl x\<close>: it throws \<open>x\<close>);
  \<open>static h r p\<close> is the same for \<open>obj.constructor\<close>. Methods are functions of their
  arguments: effects of host methods are outside the model, and every object is
  assumed to have a constructor.
\<close>

record 'n host =
  Number :: "string \<Rightarrow> 'n"
  numToString :: "'n \<Rightarrow> string"
  numAdd :: "'n \<Rightarrow> 'n \<Rightarrow> 'n"
  numSub :: "'n \<Rightarrow> 'n \<Rightarrow> 'n"
  numMul :: "'n \<Rightarrow> 'n \<Rightarrow> 'n"
  numDiv :: "'n \<Rightarrow> 'n \<Rightarrow> 'n"
  inst :: "nat \<Rightarrow> string \<Rightarrow> ('n val list \<Rightarrow> string + 'n val) option"
  static :: "nat \<Rightarrow> string \<Rightarrow> ('n val list \<Rightarrow> string + 'n val) option"
  objToString :: "nat \<Rightarrow> string"
  display :: "nat \<Rightarrow> string"

section \<open>Operator specs and table construction\<close>

datatype OpSpec = BinOp string | UnOp string | FnOp string string

text \<open>An entry of the user's table is a string (shorthand for a binary operator) or a spec.\<close>

datatype OpDecl = Sym string | Spec OpSpec

fun normalize :: "OpDecl \<Rightarrow> OpSpec" where
  "normalize (Sym s) = BinOp s"
| "normalize (Spec sp) = sp"

text \<open>\<open>op.type === 'fn' ? op.parts.includes(s) : op.op === s\<close>\<close>

fun uses :: "string \<Rightarrow> OpSpec \<Rightarrow> bool" where
  "uses s (FnOp a b) = (a = s \<or> b = s)"
| "uses s (BinOp x) = (x = s)"
| "uses s (UnOp x) = (x = s)"

definition inject :: "OpSpec list \<Rightarrow> string \<Rightarrow> OpSpec list" where
  "inject all s = (if \<not> list_ex (uses s) all then [UnOp s] else [])"

definition processOps :: "OpDecl list list \<Rightarrow> error + OpSpec list list" where
  "processOps ops =
     (if ops = [] \<or> \<not> list_ex (\<lambda>tier. tier \<noteq> []) ops then Inl (Error ''No operators supplied'')
      else
        let out = map (map normalize) ops;
            all = concat out
        in Inr (butlast out @ [last out @ inject all ''('' @ inject all '')'' @ inject all '','']))"

definition defaultDecls :: "OpDecl list list" where
  "defaultDecls =
     [[Sym ''*'', Sym ''/''],
      [Sym ''+'', Sym ''-''],
      [Sym ''=='', Sym ''!=''],
      [Spec (FnOp ''['' '']''), Spec (FnOp ''('' '')''), Spec (UnOp ''-'')]]"

section \<open>Lexer\<close>

datatype 'n Tok = LitTok "'n val" | OpTok OpSpec string

type_synonym cursor = "nat \<times> nat"

text \<open>
  \<open>c.trim() === ''\<close> for one character. The characters of the model are the code
  units below 256; of these \<open>trim\<close> removes the space, the five controls from tab to
  carriage return and the no-break space.
\<close>

definition isSpace :: "char \<Rightarrow> bool" where
  "isSpace c = (c \<in> set [CHR '' '', CHR 0x09, CHR 0x0A, CHR 0x0B, CHR 0x0C, CHR 0x0D, CHR 0xA0])"

text \<open>
  Modelled from the spec: \<open>isNumber\<close> of \<open>utils.js\<close>, which is not among the sources;
  section 4.2 says a character is numeric when it is a digit or a decimal point.
\<close>

definition isNumber :: "char \<Rightarrow> bool" where
  "isNumber c = (c \<in> set ''0123456789.'')"

text \<open>\<open>s.startsWith(p, i)\<close>\<close>

fun startsWith :: "string \<Rightarrow> string \<Rightarrow> bool" where
  "startsWith s [] = True"
| "startsWith [] (p # ps) = False"
| "startsWith (c # cs) (p # ps) = (c = p \<and> startsWith cs ps)"

text \<open>The whitespace loop: the first index from \<open>i\<close> on that is past the end or not blank.\<close>

definition skipSpace :: "string \<Rightarrow> nat \<Rightarrow> nat" where
  "skipSpace s i = i + length (takeWhile isSpace (drop i s))"

text \<open>
  The scan over \<open>ops.flat()\<close>: the first spec, in table order, one of whose symbols
  starts the rest of the fragment; for a bracket spec the opening part is tried first.
\<close>

fun findOp :: "OpSpec list \<Rightarrow> string \<Rightarrow> (OpSpec \<times> string) option" where
  "findOp [] rest = None"
| "findOp (FnOp a b # os) rest =
     (if startsWith rest a then Some (FnOp a b, a)
      else if startsWith rest b then Some (FnOp a b, b)
      else findOp os rest)"
| "findOp (BinOp x # os) rest = (if startsWith rest x then Some (BinOp x, x) else findOp os rest)"
| "findOp (UnOp x # os) rest = (if startsWith rest x then Some (UnOp x, x) else findOp os rest)"

text \<open>
  The string loop, entered on the text after the opening quote, which is not empty:
  \<open>None\<close> when the fragment ends before the closing quote.
\<close>

fun scanString :: "char \<Rightarrow> string \<Rightarrow> string option" where
  "scanString q [] = None"
| "scanString q (c # cs) =
     (if c = q then Some []
      else if cs = [] then None
      else map_option ((#) c) (scanString q cs))"

definition scanNumber :: "string \<Rightarrow> string" where
  "scanNumber rest = takeWhile (\<lambda>c. \<not> isSpace c \<and> isNumber c) rest"

definition hole :: "'n val list \<Rightarrow> nat \<Rightarrow> 'n val" where
  "hole vals i = (if i < length vals then vals ! i else Undefined)"

text \<open>
  \<open>lex\<close> peeks: it returns the token at the cursor and the cursor, whose character
  index the whitespace loop has moved. The cursor is not needed after a throw.
\<close>

definition lex ::
  "'n host \<Rightarrow> OpSpec list list \<Rightarrow> string list \<Rightarrow> 'n val list \<Rightarrow> cursor \<Rightarrow> error + 'n Tok \<times> cursor"
where
  "lex h ops strs vals cur =
     (case cur of (strIdx, charIdx0) \<Rightarrow>
      if length strs \<le> strIdx then Inr (LitTok Undefined, cur)
      else
        let s = strs ! strIdx;
            charIdx = skipSpace s charIdx0;
            rest = drop charIdx s
        in if rest = [] then Inr (LitTok (hole vals strIdx), (strIdx, charIdx))
           else
             (case findOp (concat ops) rest of
                Some (op, raw) \<Rightarrow> Inr (OpTok op raw, (strIdx, charIdx))
              | None \<Rightarrow>
                  if hd rest = CHR 0x27 \<or> hd rest = CHR 0x22 then
                    (if tl rest = [] then Inl (Error ''Syntax error: string literal expected'')
                     else
                       (case scanString (hd rest) (tl rest) of
                          None \<Rightarrow> Inl (Error ''Syntax error: unterminated string literal'')
                        | Some str \<Rightarrow> Inr (LitTok (Str str), (strIdx, charIdx))))
                  else if isNumber (hd rest) then
                    Inr (LitTok (Num (Number h (scanNumber rest))), (strIdx, charIdx))
                  else Inl (Error (''Syntax error: invalid token '' @ [CHR 0x27, hd rest, CHR 0x27]))))"

text \<open>\<open>v.toString()\<close>, which \<open>next\<close> applies to a literal that is not a string.\<close>

fun toString :: "'n host \<Rightarrow> 'n val \<Rightarrow> error + string" where
  "toString h Undefined = Inl TypeError"
| "toString h Null = Inl TypeError"
| "toString h (Bool b) = Inr (if b then ''true'' else ''false'')"
| "toString h (Num n) = Inr (numToString h n)"
| "toString h (Str s) = Inr s"
| "toString h (Obj r) = Inr (objToString h r)"

text \<open>The width \<open>next\<close> adds to the character index for a token inside a fragment.\<close>

fun width :: "'n host \<Rightarrow> 'n Tok \<Rightarrow> error + nat" where
  "width h (OpTok op raw) = Inr (length raw)"
| "width h (LitTok (Str s)) = Inr (length s + 2)"
| "width h (LitTok v) = map_sum id length (toString h v)"

text \<open>\<open>next\<close> of the source (\<open>next\<close> is a keyword here).\<close>

definition advance ::
  "'n host \<Rightarrow> OpSpec list list \<Rightarrow> string list \<Rightarrow> 'n val list \<Rightarrow> cursor \<Rightarrow> error + cursor"
where
  "advance h ops strs vals cur =
     (case cur of (strIdx, charIdx) \<Rightarrow>
      if strIdx < length strs then
        (if length (strs ! strIdx) \<le> charIdx then Inr (strIdx + 1, 0)
         else
           (case lex h ops strs vals cur of
              Inl e \<Rightarrow> Inl e
            | Inr (consumedTok, (si, ci)) \<Rightarrow>
                (case width h consumedTok of
                   Inl e \<Rightarrow> Inl e
                 | Inr w \<Rightarrow> Inr (si, ci + w))))
      else Inr cur)"

section \<open>AST\<close>

text \<open>
  A node of the source is \<open>{[OP]: spec, left, right}\<close>. The parser builds it in three
  shapes, which are the three constructors: two operand nodes; \<open>left: null\<close> with one
  operand node; a callee value with an array of argument nodes. The spec a node
  carries is the one the lexer found for the token, whatever the shape.
\<close>

datatype 'n node =
    Lit "'n val"
  | BinNode OpSpec "'n node" "'n node"
  | UnNode OpSpec "'n node"
  | CallNode OpSpec "'n val" "'n node list"

section \<open>Parser\<close>

text \<open>
  The parser functions call each other without a bound (an operator whose symbol is
  the empty string is consumed without moving the cursor), so the model counts calls
  down from a fuel: \<open>None\<close> is "fuel used up", \<open>Some (Inl e)\<close> a throw of \<open>e\<close>,
  \<open>Some (Inr x)\<close> a return of \<open>x\<close>.
\<close>

definition bindE :: "error + 'a \<Rightarrow> ('a \<Rightarrow> (error + 'b) option) \<Rightarrow> (error + 'b) option" where
  "bindE r k = (case r of Inl e \<Rightarrow> Some (Inl e) | Inr x \<Rightarrow> k x)"

definition bindP :: "(error + 'a) option \<Rightarrow> ('a \<Rightarrow> (error + 'b) option) \<Rightarrow> (error + 'b) option" where
  "bindP r k = (case r of None \<Rightarrow> None | Some (Inl e) \<Rightarrow> Some (Inl e) | Some (Inr x) \<Rightarrow> k x)"

definition throw :: "string \<Rightarrow> (error + 'a) option" where
  "throw msg = Some (Inl (Error msg))"

text \<open>
  \<open>tok[OP].type === 'un' || ops.flat().some((op) => op.type === 'un' && op.op === tok.raw)\<close>,
  together with the spec the unary node then gets.
\<close>

fun isUn :: "OpSpec \<Rightarrow> bool" where
  "isUn (UnOp x) = True"
| "isUn sp = False"

definition unarySpec :: "OpSpec list list \<Rightarrow> OpSpec \<Rightarrow> string \<Rightarrow> OpSpec option" where
  "unarySpec ops sp raw = (if isUn sp then Some sp else find (\<lambda>op. op = UnOp raw) (concat ops))"

text \<open>
  The test of the argument loop, \<open>nextTok.type !== 'op' || nextTok.raw !== closing\<close>,
  negated: the spec of a token that is the closing symbol.
\<close>

fun closes :: "'n Tok \<Rightarrow> string \<Rightarrow> OpSpec option" where
  "closes (OpTok sp raw) closing = (if raw = closing then Some sp else None)"
| "closes (LitTok v) closing = None"

text \<open>The single quote of the messages.\<close>

definition sq :: string where
  "sq = [CHR 0x27]"

text \<open>\<open>tier.some((op) => op.type === 'bin' && op.op === tok.raw)\<close>\<close>

definition tierHas :: "OpSpec list \<Rightarrow> string \<Rightarrow> bool" where
  "tierHas tier raw = list_ex (\<lambda>op. op = BinOp raw) tier"

text \<open>
  The folding loop of a tier parser. \<open>clauses\<close> is \<open>[left, op1, r1, op2, r2, ...]\<close> in the
  source; the model keeps its head and the pairs pushed after it. Each round takes the
  head and the first pair off and puts their node back as the head.
\<close>

fun foldClauses :: "'n node \<Rightarrow> (OpSpec \<times> 'n node) list \<Rightarrow> 'n node" where
  "foldClauses left [] = left"
| "foldClauses left ((op, right) # clauses) = foldClauses (BinNode op left right) clauses"

function (sequential) parseLevel ::
  "'n host \<Rightarrow> OpSpec list list \<Rightarrow> string list \<Rightarrow> 'n val list \<Rightarrow> nat \<Rightarrow> nat \<Rightarrow> cursor
     \<Rightarrow> (error + 'n node \<times> cursor) option"
and parseArgs ::
  "'n host \<Rightarrow> OpSpec list list \<Rightarrow> string list \<Rightarrow> 'n val list \<Rightarrow> nat \<Rightarrow> string \<Rightarrow> 'n val
     \<Rightarrow> 'n node list \<Rightarrow> 'n Tok \<Rightarrow> cursor \<Rightarrow> (error + 'n node \<times> cursor) option"
and parseChain ::
  "'n host \<Rightarrow> OpSpec list list \<Rightarrow> string list \<Rightarrow> 'n val list \<Rightarrow> nat \<Rightarrow> nat \<Rightarrow> 'n node
     \<Rightarrow> (OpSpec \<times> 'n node) list \<Rightarrow> 'n Tok \<Rightarrow> cursor \<Rightarrow> (error + 'n node \<times> cursor) option"
where
  "parseLevel h ops strs vals 0 lvl cur = None"
| "parseLevel h ops strs vals (Suc n) 0 cur =
     bindE (lex h ops strs vals cur) (\<lambda>(tok, cur).
       case tok of
         OpTok sp raw \<Rightarrow>
           if raw = ''('' then
             bindE (advance h ops strs vals cur) (\<lambda>cur.
             bindP (parseLevel h ops strs vals n (length ops) cur) (\<lambda>(expr, cur).
             bindE (lex h ops strs vals cur) (\<lambda>(cp, cur).
               case cp of
                 OpTok sp' raw' \<Rightarrow>
                   if raw' = '')'' then bindE (advance h ops strs vals cur) (\<lambda>cur. Some (Inr (expr, cur)))
                   else throw (''Syntax error: unterminated '' @ sq @ ''('' @ sq)
               | LitTok v \<Rightarrow> throw (''Syntax error: unterminated '' @ sq @ ''('' @ sq))))
           else
             (case unarySpec ops sp raw of
                Some u \<Rightarrow>
                  bindE (advance h ops strs vals cur) (\<lambda>cur.
                  bindP (parseLevel h ops strs vals n (length ops) cur) (\<lambda>(expr, cur).
                    Some (Inr (UnNode u expr, cur))))
              | None \<Rightarrow> throw ''Syntax error: expected value'')
       | LitTok v \<Rightarrow>
           bindE (advance h ops strs vals cur) (\<lambda>cur.
             if v \<noteq> Undefined then
               bindE (lex h ops strs vals cur) (\<lambda>(nextTok, cur).
                 case nextTok of
                   OpTok (FnOp a b) raw \<Rightarrow>
                     if raw = a then
                       bindE (advance h ops strs vals cur) (\<lambda>cur.
                       bindE (lex h ops strs vals cur) (\<lambda>(nextTok, cur).
                         parseArgs h ops strs vals n b v [] nextTok cur))
                     else Some (Inr (Lit v, cur))
                 | _ \<Rightarrow> Some (Inr (Lit v, cur)))
             else throw ''Syntax error: expected value''))"
| "parseLevel h ops strs vals (Suc n) (Suc i) cur =
     (if length ops \<le> i then Some (Inl TypeError)
      else
        bindP (parseLevel h ops strs vals n i cur) (\<lambda>(left, cur).
        bindE (lex h ops strs vals cur) (\<lambda>(tok, cur).
          case tok of
            LitTok v \<Rightarrow>
              if v = Undefined then bindE (advance h ops strs vals cur) (\<lambda>cur. Some (Inr (left, cur)))
              else throw ''Syntax error: expected operator''
          | OpTok sp raw \<Rightarrow> parseChain h ops strs vals n i left [] tok cur)))"
| "parseArgs h ops strs vals 0 closing val args nextTok cur = None"
| "parseArgs h ops strs vals (Suc n) closing val args nextTok cur =
     (case closes nextTok closing of
        Some sp \<Rightarrow> Some (Inr (CallNode sp val args, cur))
      | None \<Rightarrow>
          bindP (parseLevel h ops strs vals n (length ops) cur) (\<lambda>(arg, cur).
          bindE (lex h ops strs vals cur) (\<lambda>(nextTok, cur).
            case nextTok of
              OpTok sp raw \<Rightarrow>
                if raw = '','' then
                  bindE (advance h ops strs vals cur) (\<lambda>cur.
                  bindE (lex h ops strs vals cur) (\<lambda>(nextTok, cur).
                    parseArgs h ops strs vals n closing val (args @ [arg]) nextTok cur))
                else if raw \<noteq> closing \<and> \<not> isUn sp \<and> raw \<noteq> ''('' then
                  throw (''Syntax error: expected either '' @ sq @ '','' @ sq @ '' or '' @ sq @ closing @ sq
                           @ '', got '' @ sq @ raw @ sq)
                else if raw = closing then Some (Inr (CallNode sp val (args @ [arg]), cur))
                else parseArgs h ops strs vals n closing val (args @ [arg]) nextTok cur
            | LitTok v \<Rightarrow> throw (''Syntax error: expected '' @ sq @ closing @ sq))))"
| "parseChain h ops strs vals 0 i left clauses tok cur = None"
| "parseChain h ops strs vals (Suc n) i left clauses tok cur =
     (case tok of
        OpTok sp raw \<Rightarrow>
          if tierHas (ops ! i) raw then
            bindE (advance h ops strs vals cur) (\<lambda>cur.
            bindP (parseLevel h ops strs vals n i cur) (\<lambda>(right, cur).
            bindE (lex h ops strs vals cur) (\<lambda>(tok, cur).
              parseChain h ops strs vals n i left (clauses @ [(sp, right)]) tok cur)))
          else Some (Inr (foldClauses left clauses, cur))
      | LitTok v \<Rightarrow> Some (Inr (foldClauses left clauses, cur)))"
  by pat_completeness auto

termination
  by (relation "measure (\<lambda>x. case x of
          Inl (h, ops, strs, vals, n, r) \<Rightarrow> n
        | Inr (Inl (h, ops, strs, vals, n, r)) \<Rightarrow> n
        | Inr (Inr (h, ops, strs, vals, n, r)) \<Rightarrow> n)") auto

section \<open>Evaluator\<close>

fun opName :: "OpSpec \<Rightarrow> string" where
  "opName (FnOp a b) = a @ b"
| "opName (BinOp x) = x"
| "opName (UnOp x) = x"

text \<open>
  \<open>toErrorDisplay\<close>: for an object the host decides what is shown (its
  \<open>Symbol.toPrimitive\<close>, its own \<open>toString\<close> or the name of its constructor); for
  \<open>null\<close>, whose \<open>typeof\<close> is \<open>'object'\<close>, the test \<open>Symbol.toPrimitive in obj\<close>
  raises; the rest is the host's template conversion.
\<close>

fun toErrorDisplay :: "'n host \<Rightarrow> 'n val \<Rightarrow> error + string" where
  "toErrorDisplay h (Obj r) = Inr (display h r)"
| "toErrorDisplay h Null = Inl TypeError"
| "toErrorDisplay h Undefined = Inr ''undefined''"
| "toErrorDisplay h (Bool b) = Inr (if b then ''true'' else ''false'')"
| "toErrorDisplay h (Num n) = Inr (numToString h n)"
| "toErrorDisplay h (Str s) = Inr s"

text \<open>\<open>throw new Error(...)\<close> with one or two displayed operands in the message.\<close>

definition operr1 :: "'n host \<Rightarrow> string \<Rightarrow> 'n val \<Rightarrow> string \<Rightarrow> error + 'a" where
  "operr1 h pre v post =
     (case toErrorDisplay h v of Inl e \<Rightarrow> Inl e | Inr d \<Rightarrow> Inl (Error (pre @ d @ post)))"

definition operr2 :: "'n host \<Rightarrow> string \<Rightarrow> 'n val \<Rightarrow> string \<Rightarrow> 'n val \<Rightarrow> error + 'a" where
  "operr2 h pre v mid w =
     (case toErrorDisplay h v of
        Inl e \<Rightarrow> Inl e
      | Inr d \<Rightarrow> (case toErrorDisplay h w of Inl e \<Rightarrow> Inl e | Inr d' \<Rightarrow> Inl (Error (pre @ d @ mid @ d'))))"

text \<open>A call outside \<open>try\<close>: what the method throws is thrown on.\<close>

definition call :: "('n val list \<Rightarrow> string + 'n val) \<Rightarrow> 'n val list \<Rightarrow> error + 'n val" where
  "call f args = (case f args of Inl x \<Rightarrow> Inl (Thrown x) | Inr v \<Rightarrow> Inr v)"

text \<open>
  \<open>if (p in target) { try { return target[p](args) } catch (e) {} }\<close>: \<open>Some v\<close> when the
  property is there and the call returns \<open>v\<close>; \<open>None\<close> when control goes on to the
  statement after it.
\<close>

definition attempt :: "('n val list \<Rightarrow> string + 'n val) option \<Rightarrow> 'n val list \<Rightarrow> 'n val option" where
  "attempt m args =
     (case m of
        None \<Rightarrow> None
      | Some f \<Rightarrow> (case f args of Inl x \<Rightarrow> None | Inr v \<Rightarrow> Some v))"

text \<open>The host's \<open>+\<close> on operands that are strings or numbers.\<close>

fun jsPlus :: "'n host \<Rightarrow> 'n val \<Rightarrow> 'n val \<Rightarrow> 'n val" where
  "jsPlus h (Num a) (Num b) = Num (numAdd h a b)"
| "jsPlus h (Num a) (Str b) = Str (numToString h a @ b)"
| "jsPlus h (Str a) (Num b) = Str (a @ numToString h b)"
| "jsPlus h (Str a) (Str b) = Str (a @ b)"
| "jsPlus h l r = Undefined"

definition strOrNum :: "'n val \<Rightarrow> bool" where
  "strOrNum v = (typeof v = TString \<or> typeof v = TNumber)"

text \<open>
  The two fallbacks on the right operand that the branches for a left operand that is
  not an object share, followed by their \<open>throw\<close>.
\<close>

definition viaRight :: "'n host \<Rightarrow> string \<Rightarrow> string \<Rightarrow> 'n val \<Rightarrow> 'n val \<Rightarrow> error + 'n val" where
  "viaRight h op symb left right =
     (case right of
        Null \<Rightarrow> Inl TypeError
      | Obj r \<Rightarrow>
          (case attempt (inst h r op) [left] of
             Some v \<Rightarrow> Inr v
           | None \<Rightarrow>
               (case attempt (static h r op) [left, right] of
                  Some v \<Rightarrow> Inr v
                | None \<Rightarrow> operr2 h ''Operator error: cannot evaluate '' left ('' '' @ symb @ '' '') right))
      | _ \<Rightarrow> operr2 h ''Operator error: cannot evaluate '' left ('' '' @ symb @ '' '') right)"

text \<open>The branch of \<open>evalOps\<close> for a spec of type \<open>'bin'\<close>, on the two evaluated operands.\<close>

definition evalBin :: "'n host \<Rightarrow> string \<Rightarrow> 'n val \<Rightarrow> 'n val \<Rightarrow> error + 'n val" where
  "evalBin h symb left right =
     (let op = ''operator'' @ symb in
      case left of
        Null \<Rightarrow> Inl TypeError
      | Obj l \<Rightarrow>
          (case inst h l op of
             Some f \<Rightarrow> call f [right]
           | None \<Rightarrow>
               (case attempt (static h l op) [left, right] of
                  Some v \<Rightarrow> Inr v
                | None \<Rightarrow>
                    (case right of
                       Null \<Rightarrow> Inl TypeError
                     | Obj r \<Rightarrow>
                         (case attempt (static h r op) [left, right] of
                            Some v \<Rightarrow> Inr v
                          | None \<Rightarrow>
                              operr1 h (''Operator error: '' @ op @ '' is not a callable on left operand '') left
                                ('' or a static function on either operand'' @ sq @ ''s types''))
                     | _ \<Rightarrow>
                         operr1 h (''Operator error: '' @ op @ '' is not a callable on left operand '') left
                           ('' or a static function on either operand'' @ sq @ ''s types''))))
      | _ \<Rightarrow>
          if symb = ''+'' then
            (if strOrNum left \<and> strOrNum right then Inr (jsPlus h left right)
             else viaRight h op symb left right)
          else if symb \<in> set [''-'', ''*'', ''/''] then
            (case (left, right) of
               (Num a, Num b) \<Rightarrow>
                 Inr (Num (if symb = ''-'' then numSub h a b
                           else if symb = ''*'' then numMul h a b
                           else numDiv h a b))
             | _ \<Rightarrow> viaRight h op symb left right)
          else
            operr1 h (''Operator error: '' @ op @ '' is not a builtin or a callable on left operand '') left [])"

text \<open>The branch for a spec of type \<open>'un'\<close>, on the evaluated operand.\<close>

definition evalUn :: "'n host \<Rightarrow> string \<Rightarrow> 'n val \<Rightarrow> error + 'n val" where
  "evalUn h symb right =
     (let op = ''operator'' @ symb in
      case right of
        Null \<Rightarrow> Inl TypeError
      | Obj r \<Rightarrow>
          (case inst h r op of
             Some f \<Rightarrow> call f []
           | None \<Rightarrow> operr1 h (''Operator error: '' @ op @ '' is not a callable on '') right [])
      | _ \<Rightarrow> operr1 h (''Operator error: '' @ op @ '' is not a callable on '') right [])"

text \<open>
  The branch for a bracket spec, on the evaluated callee and arguments. The static
  function is called as \<open>Class[op](left, args)\<close> with the arguments as one array; the
  model hands it the callee followed by the arguments. The constructors of the
  primitive values are taken not to have operator properties.
\<close>

definition evalCall :: "'n host \<Rightarrow> string \<Rightarrow> 'n val \<Rightarrow> 'n val list \<Rightarrow> error + 'n val" where
  "evalCall h name left args =
     (let op = ''operator'' @ name in
      case left of
        Null \<Rightarrow> Inl TypeError
      | Undefined \<Rightarrow> Inl TypeError
      | Obj l \<Rightarrow>
          (case inst h l op of
             Some f \<Rightarrow> call f args
           | None \<Rightarrow>
               (case attempt (static h l op) (left # args) of
                  Some v \<Rightarrow> Inr v
                | None \<Rightarrow>
                    operr1 h (''Operator error: '' @ op @ '' is not a callable on left operand '') left
                      '' or a static function on its type''))
      | _ \<Rightarrow>
          operr1 h (''Operator error: '' @ op @ '' is not a callable on left operand '') left
            '' or a static function on its type'')"

text \<open>
  A call-shaped node whose spec is not a bracket spec (the closing symbol of a bracket
  can be found first under another spec of the table). Its \<open>node.right\<close> is the array
  of argument nodes, which \<open>evalOps\<close> returns as it is, and the branch of the spec's
  type runs with the array as its right operand. An array and its constructor expose
  no operator property, so every test on the right operand fails, and
  \<open>toErrorDisplay\<close> shows the array as its \<open>toString\<close> does: the elements joined by
  commas, \<open>null\<close> and \<open>undefined\<close> empty, a node \<open>[object Object]\<close>, an object by
  its \<open>toString\<close>. Where a method of the left operand or of its constructor would be
  called with the array, the value model has no argument to hand it: that outcome is
  \<open>Unmodelled\<close>.
\<close>

fun joinComma :: "string list \<Rightarrow> string" where
  "joinComma [] = []"
| "joinComma [x] = x"
| "joinComma (x # y # zs) = x @ '','' @ joinComma (y # zs)"

fun elementString :: "'n host \<Rightarrow> 'n node \<Rightarrow> string" where
  "elementString h (Lit Undefined) = []"
| "elementString h (Lit Null) = []"
| "elementString h (Lit (Bool b)) = (if b then ''true'' else ''false'')"
| "elementString h (Lit (Num n)) = numToString h n"
| "elementString h (Lit (Str s)) = s"
| "elementString h (Lit (Obj r)) = objToString h r"
| "elementString h nd = ''[object Object]''"

definition arrayDisplay :: "'n host \<Rightarrow> 'n node list \<Rightarrow> string" where
  "arrayDisplay h args = joinComma (map (elementString h) args)"

definition evalBinArray :: "'n host \<Rightarrow> string \<Rightarrow> 'n val \<Rightarrow> 'n node list \<Rightarrow> error + 'n val" where
  "evalBinArray h symb left args =
     (let op = ''operator'' @ symb in
      case left of
        Null \<Rightarrow> Inl TypeError
      | Obj l \<Rightarrow>
          (case inst h l op of
             Some f \<Rightarrow> Inl Unmodelled
           | None \<Rightarrow>
               (case static h l op of
                  Some g \<Rightarrow> Inl Unmodelled
                | None \<Rightarrow>
                    operr1 h (''Operator error: '' @ op @ '' is not a callable on left operand '') left
                      ('' or a static function on either operand'' @ sq @ ''s types'')))
      | _ \<Rightarrow>
          if symb \<in> set [''+'', ''-'', ''*'', ''/''] then
            (case toErrorDisplay h left of
               Inl e \<Rightarrow> Inl e
             | Inr d \<Rightarrow>
                 Inl (Error (''Operator error: cannot evaluate '' @ d @ '' '' @ symb @ '' '' @ arrayDisplay h args)))
          else
            operr1 h (''Operator error: '' @ op @ '' is not a builtin or a callable on left operand '') left [])"

definition evalUnArray :: "'n host \<Rightarrow> string \<Rightarrow> 'n node list \<Rightarrow> error + 'n val" where
  "evalUnArray h symb args =
     Inl (Error (''Operator error: operator'' @ symb @ '' is not a callable on '' @ arrayDisplay h args))"

text \<open>
  \<open>evalOps\<close>. The test \<open>typeof node === 'object' && OP in node\<close> raises on \<open>null\<close>; host
  objects do not carry the module's private symbol. The branch is chosen by the type
  of the spec in the node. Where that type does not fit the shape the parser built,
  the source reads a \<open>node.left\<close> that is \<open>null\<close> or calls \<open>map\<close> on a node, which
  raises.
\<close>

definition bindR :: "error + 'a \<Rightarrow> ('a \<Rightarrow> error + 'b) \<Rightarrow> error + 'b" where
  "bindR r k = (case r of Inl e \<Rightarrow> Inl e | Inr x \<Rightarrow> k x)"

text \<open>\<open>evalOps\<close> on a value that is not a node.\<close>

definition evalLit :: "'n val \<Rightarrow> error + 'n val" where
  "evalLit v = (if v = Null then Inl TypeError else Inr v)"

fun evalOps :: "'n host \<Rightarrow> 'n node \<Rightarrow> error + 'n val"
and evalList :: "'n host \<Rightarrow> 'n node list \<Rightarrow> error + 'n val list"
where
  "evalOps h (Lit v) = evalLit v"
| "evalOps h (BinNode (BinOp x) l r) =
     bindR (evalOps h l) (\<lambda>left. bindR (evalOps h r) (\<lambda>right. evalBin h x left right))"
| "evalOps h (BinNode (UnOp x) l r) = bindR (evalOps h r) (\<lambda>right. evalUn h x right)"
| "evalOps h (BinNode (FnOp a b) l r) = bindR (evalOps h l) (\<lambda>left. Inl TypeError)"
| "evalOps h (UnNode (UnOp x) r) = bindR (evalOps h r) (\<lambda>right. evalUn h x right)"
| "evalOps h (UnNode sp r) = Inl TypeError"
| "evalOps h (CallNode (FnOp a b) v args) =
     bindR (evalLit v) (\<lambda>left. bindR (evalList h args) (\<lambda>args. evalCall h (a @ b) left args))"
| "evalOps h (CallNode (BinOp x) v args) = bindR (evalLit v) (\<lambda>left. evalBinArray h x left args)"
| "evalOps h (CallNode (UnOp x) v args) = evalUnArray h x args"
| "evalList h [] = Inr []"
| "evalList h (a # as) = bindR (evalOps h a) (\<lambda>v. bindR (evalList h as) (\<lambda>vs. Inr (v # vs)))"

section \<open>The tag function\<close>

text \<open>
  \<open>op\<close> of the source for a processed table: parse at the last level from the start
  of the first fragment, then evaluate the tree. The cursor the parser returns is
  dropped.
\<close>

definition op ::
  "'n host \<Rightarrow> OpSpec list list \<Rightarrow> nat \<Rightarrow> string list \<Rightarrow> 'n val list \<Rightarrow> (error + 'n val) option"
where
  "op h ops fuel strs vals =
     bindP (parseLevel h ops strs vals fuel (length ops) (0, 0)) (\<lambda>(tree, cur). Some (evalOps h tree))"

text \<open>The table of the exported tag \<open>op\<close>.\<close>

definition defaultOps :: "OpSpec list list" where
  "defaultOps =
     [[BinOp ''*'', BinOp ''/''],
      [BinOp ''+'', BinOp ''-''],
      [BinOp ''=='', BinOp ''!=''],
      [FnOp ''['' '']'', FnOp ''('' '')'', UnOp ''-'', UnOp '','']]"

section \<open>Notions the statements below use\<close>

text \<open>
  The symbols of a spec in the order the lexer tries them, whether a spec matches the
  rest of a fragment, and the symbol it matches with.
\<close>

fun symbols :: "OpSpec \<Rightarrow> string list" where
  "symbols (FnOp a b) = [a, b]"
| "symbols (BinOp x) = [x]"
| "symbols (UnOp x) = [x]"

definition matchesAt :: "string \<Rightarrow> OpSpec \<Rightarrow> bool" where
  "matchesAt rest sp = list_ex (startsWith rest) (symbols sp)"

definition matched :: "string \<Rightarrow> OpSpec \<Rightarrow> string option" where
  "matched rest sp = find (startsWith rest) (symbols sp)"

text \<open>The table \<open>makeOp([['='], ['==']])\<close> works with.\<close>

definition eqOps :: "OpSpec list list" where
  "eqOps = [[BinOp ''=''], [BinOp ''=='', UnOp ''('', UnOp '')'', UnOp '','']]"

text \<open>
  A host for the examples. Its numbers are the naturals, read and printed in decimal,
  which is what the host's doubles do on the short digit runs used below. Object 2 has
  no operator methods and a constructor whose \<open>operator+\<close> throws; object 3 has working
  \<open>operator+\<close> and \<open>operator-\<close> methods and no static ones; object 4 has a method
  \<open>operator[]\<close> that returns its last argument and a method \<open>operator()\<close> that returns
  the number of its arguments; object 5 has no operator methods and a constructor whose
  \<open>operator+\<close> returns; object 6 has a method \<open>operator+\<close> that throws and a
  constructor whose \<open>operator+\<close> returns; every other object has no operator property
  at all.
\<close>

definition digitVal :: "char \<Rightarrow> nat" where
  "digitVal c = of_char c - 48"

definition natOfDigits :: "string \<Rightarrow> nat" where
  "natOfDigits s = foldl (\<lambda>a c. 10 * a + digitVal c) 0 s"

fun showNat :: "nat \<Rightarrow> string" where
  "showNat n =
     (if n < 10 then [''0123456789'' ! n]
      else showNat (n div 10) @ [''0123456789'' ! (n mod 10)])"

declare showNat.simps [simp del]

definition exampleHost :: "nat host" where
  "exampleHost =
     \<lparr> Number = natOfDigits,
       numToString = showNat,
       numAdd = (+),
       numSub = (-),
       numMul = (*),
       numDiv = (div),
       inst = (\<lambda>r p.
         if r = 3 \<and> p = ''operator+'' then Some (\<lambda>args. Inr (Str ''B.operator+''))
         else if r = 3 \<and> p = ''operator-'' then Some (\<lambda>args. Inr (Obj 3))
         else if r = 4 \<and> p = ''operator[]'' then Some (\<lambda>args. Inr (last args))
         else if r = 4 \<and> p = ''operator()'' then Some (\<lambda>args. Inr (Num (length args)))
         else if r = 6 \<and> p = ''operator+'' then Some (\<lambda>args. Inl ''Not addable'')
         else None),
       static = (\<lambda>r p.
         if r = 2 \<and> p = ''operator+'' then Some (\<lambda>args. Inl ''Not point on RHS'')
         else if r = 5 \<and> p = ''operator+'' then Some (\<lambda>args. Inr (Str ''static of 5''))
         else if r = 6 \<and> p = ''operator+'' then Some (\<lambda>args. Inr (Str ''static of 6''))
         else None),
       objToString = (\<lambda>r. ''[object Object]''),
       display = (\<lambda>r. ''Object'') \<rparr>"

text \<open>
  The resolution of a binary operator in the words of a chain of candidates:
  \<open>candidates\<close> lists, in the order the code tries them, the attempts that are
  wrapped in \<open>try\<close> (each \<open>None\<close> when the property is absent or the call throws);
  \<open>builtin\<close> is the host's \<open>+\<close>, \<open>-\<close>, \<open>*\<close>, \<open>/\<close> where the code uses it;
  \<open>exhausted\<close> is the error thrown when nothing is left; \<open>resolve\<close> puts them
  together: the left operand's own method first (called outside \<open>try\<close>), then the
  builtin for a left operand that is not an object, then the first candidate that
  returns.
\<close>

fun firstSuccess :: "'a option list \<Rightarrow> 'a option" where
  "firstSuccess [] = None"
| "firstSuccess (None # cs) = firstSuccess cs"
| "firstSuccess (Some v # cs) = Some v"

definition candidates :: "'n host \<Rightarrow> string \<Rightarrow> 'n val \<Rightarrow> 'n val \<Rightarrow> 'n val option list" where
  "candidates h symb left right =
     (case left of
        Obj l \<Rightarrow>
          attempt (static h l (''operator'' @ symb)) [left, right] #
          (case right of
             Obj r \<Rightarrow> [attempt (static h r (''operator'' @ symb)) [left, right]]
           | _ \<Rightarrow> [])
      | _ \<Rightarrow>
          if symb \<in> set [''+'', ''-'', ''*'', ''/''] then
            (case right of
               Obj r \<Rightarrow>
                 [attempt (inst h r (''operator'' @ symb)) [left],
                  attempt (static h r (''operator'' @ symb)) [left, right]]
             | _ \<Rightarrow> [])
          else [])"

definition builtin :: "'n host \<Rightarrow> string \<Rightarrow> 'n val \<Rightarrow> 'n val \<Rightarrow> 'n val option" where
  "builtin h symb left right =
     (if symb = ''+'' then (if strOrNum left \<and> strOrNum right then Some (jsPlus h left right) else None)
      else
        (case (left, right) of
           (Num a, Num b) \<Rightarrow>
             if symb = ''-'' then Some (Num (numSub h a b))
             else if symb = ''*'' then Some (Num (numMul h a b))
             else if symb = ''/'' then Some (Num (numDiv h a b))
             else None
         | _ \<Rightarrow> None))"

definition exhausted :: "'n host \<Rightarrow> string \<Rightarrow> 'n val \<Rightarrow> 'n val \<Rightarrow> error + 'n val" where
  "exhausted h symb left right =
     (case left of
        Obj l \<Rightarrow>
          operr1 h (''Operator error: operator'' @ symb @ '' is not a callable on left operand '') left
            ('' or a static function on either operand'' @ sq @ ''s types'')
      | _ \<Rightarrow>
          if symb \<in> set [''+'', ''-'', ''*'', ''/''] then
            operr2 h ''Operator error: cannot evaluate '' left ('' '' @ symb @ '' '') right
          else
            operr1 h (''Operator error: operator'' @ symb @ '' is not a builtin or a callable on left operand '')
              left [])"

definition resolve :: "'n host \<Rightarrow> string \<Rightarrow> 'n val \<Rightarrow> 'n val \<Rightarrow> error + 'n val" where
  "resolve h symb left right =
     (case (case left of Obj l \<Rightarrow> inst h l (''operator'' @ symb) | _ \<Rightarrow> None) of
        Some f \<Rightarrow> call f [right]
      | None \<Rightarrow>
          (case (case left of Obj l \<Rightarrow> None | _ \<Rightarrow> builtin h symb left right) of
             Some v \<Rightarrow> Inr v
           | None \<Rightarrow>
               (case firstSuccess (candidates h symb left right) of
                  Some v \<Rightarrow> Inr v
                | None \<Rightarrow> exhausted h symb left right)))"

text \<open>
  The three structural symbols, and the specs a user table declares (shorthand
  normalized, tiers flattened).
\<close>

definition structural :: "string list" where
  "structural = [''('', '')'', '','']"

definition declared :: "OpDecl list list \<Rightarrow> OpSpec list" where
  "declared decls = concat (map (map normalize) decls)"

text \<open>The values a tree holds as literals and as callees.\<close>

fun literals :: "'n node \<Rightarrow> 'n val list" where
  "literals (Lit v) = [v]"
| "literals (BinNode sp l r) = literals l @ literals r"
| "literals (UnNode sp r) = literals r"
| "literals (CallNode sp v args) = v # concat (map literals args)"

text \<open>
  The invariant of the parser that \<open>undefined\<close> never becomes a literal or a callee
  of a tree, for the three functions at one fuel.
\<close>

definition parserOk :: "'n host \<Rightarrow> OpSpec list list \<Rightarrow> string list \<Rightarrow> 'n val list \<Rightarrow> nat \<Rightarrow> bool" where
  "parserOk h ops strs vals n \<longleftrightarrow>
     (\<forall>lvl cur t c. parseLevel h ops strs vals n lvl cur = Some (Inr (t, c)) \<longrightarrow> Undefined \<notin> set (literals t))
   \<and> (\<forall>closing v args tok cur t c.
         parseArgs h ops strs vals n closing v args tok cur = Some (Inr (t, c)) \<longrightarrow>
         v \<noteq> Undefined \<longrightarrow> (\<forall>a\<in>set args. Undefined \<notin> set (literals a)) \<longrightarrow> Undefined \<notin> set (literals t))
   \<and> (\<forall>i left clauses tok cur t c.
         parseChain h ops strs vals n i left clauses tok cur = Some (Inr (t, c)) \<longrightarrow>
         Undefined \<notin> set (literals left) \<longrightarrow> (\<forall>(sp, r)\<in>set clauses. Undefined \<notin> set (literals r)) \<longrightarrow>
         Undefined \<notin> set (literals t))"

text \<open>
  The chain a tier level records, read off the input: \<open>recorded ... n i tok cur chain cur'\<close>
  says that from the peeked token \<open>tok\<close> at cursor \<open>cur\<close> the input holds, left to
  right, the binary operators of tier \<open>i\<close> and the operands after them that are the
  pairs of \<open>chain\<close>, each operand being what \<open>parsers[i]\<close> returns after its operator,
  up to a token that is not a binary operator of the tier, peeked at \<open>cur'\<close>. The fuel
  counts the operators as the loop of the tier does.
\<close>

fun recorded ::
  "'n host \<Rightarrow> OpSpec list list \<Rightarrow> string list \<Rightarrow> 'n val list \<Rightarrow> nat \<Rightarrow> nat \<Rightarrow> 'n Tok \<Rightarrow> cursor
     \<Rightarrow> (OpSpec \<times> 'n node) list \<Rightarrow> cursor \<Rightarrow> bool"
where
  "recorded h ops strs vals 0 i tok cur clauses cur' = False"
| "recorded h ops strs vals (Suc n) i tok cur [] cur' =
     (cur' = cur \<and> (case tok of OpTok sp raw \<Rightarrow> \<not> tierHas (ops ! i) raw | LitTok v \<Rightarrow> True))"
| "recorded h ops strs vals (Suc n) i tok cur ((sp, right) # clauses) cur' =
     (case tok of
        LitTok v \<Rightarrow> False
      | OpTok sp' raw \<Rightarrow>
          sp' = sp \<and> tierHas (ops ! i) raw \<and>
          (case advance h ops strs vals cur of
             Inl e \<Rightarrow> False
           | Inr c \<Rightarrow>
               (case parseLevel h ops strs vals n i c of
                  Some (Inr (r, c')) \<Rightarrow>
                    r = right \<and>
                    (case lex h ops strs vals c' of
                       Inl e \<Rightarrow> False
                     | Inr (tok', c'') \<Rightarrow> recorded h ops strs vals n i tok' c'' clauses cur')
                | _ \<Rightarrow> False)))"

section \<open>The lexer takes the first match\<close>

lemma startsWith_iff: "startsWith s p \<longleftrightarrow> (\<exists>t. s = p @ t)"
  by (induction s p rule: startsWith.induct) auto

lemma matched_matchesAt: "matched rest sp = Some raw \<Longrightarrow> matchesAt rest sp"
  by (cases sp) (auto simp: matched_def matchesAt_def split: if_splits)

lemma findOp_None: "findOp os rest = None \<longleftrightarrow> (\<forall>sp\<in>set os. \<not> matchesAt rest sp)"
  by (induction os rest rule: findOp.induct) (auto simp: matchesAt_def)

lemma findOp_first:
  "(\<forall>p\<in>set pre. \<not> matchesAt rest p) \<Longrightarrow> matched rest sp = Some raw
     \<Longrightarrow> findOp (pre @ sp # post) rest = Some (sp, raw)"
proof (induction pre)
  case Nil
  then show ?case by (cases sp) (auto simp: matched_def split: if_splits)
next
  case (Cons p pre)
  then show ?case by (cases p) (auto simp: matchesAt_def)
qed

lemma findOp_Some:
  "findOp os rest = Some (sp, raw) \<Longrightarrow>
     \<exists>pre post. os = pre @ sp # post \<and> (\<forall>p\<in>set pre. \<not> matchesAt rest p) \<and> matched rest sp = Some raw"
proof (induction os rest rule: findOp.induct)
  case (1 rest)
  then show ?case by simp
next
  case (2 a b os rest)
  show ?case
  proof (cases "startsWith rest a \<or> startsWith rest b")
    case True
    with 2 have "sp = FnOp a b" "matched rest sp = Some raw"
      by (auto simp: matched_def split: if_splits)
    then show ?thesis by (intro exI[of _ "[]"] exI[of _ os]) simp
  next
    case False
    with 2 obtain pre post where "os = pre @ sp # post" "\<forall>p\<in>set pre. \<not> matchesAt rest p"
      "matched rest sp = Some raw"
      by auto
    with False show ?thesis
      by (intro exI[of _ "FnOp a b # pre"] exI[of _ post]) (simp add: matchesAt_def)
  qed
next
  case (3 x os rest)
  show ?case
  proof (cases "startsWith rest x")
    case True
    with 3 have "sp = BinOp x" "matched rest sp = Some raw"
      by (auto simp: matched_def split: if_splits)
    then show ?thesis by (intro exI[of _ "[]"] exI[of _ os]) simp
  next
    case False
    with 3 obtain pre post where "os = pre @ sp # post" "\<forall>p\<in>set pre. \<not> matchesAt rest p"
      "matched rest sp = Some raw"
      by auto
    with False show ?thesis
      by (intro exI[of _ "BinOp x # pre"] exI[of _ post]) (simp add: matchesAt_def)
  qed
next
  case (4 x os rest)
  show ?case
  proof (cases "startsWith rest x")
    case True
    with 4 have "sp = UnOp x" "matched rest sp = Some raw"
      by (auto simp: matched_def split: if_splits)
    then show ?thesis by (intro exI[of _ "[]"] exI[of _ os]) simp
  next
    case False
    with 4 obtain pre post where "os = pre @ sp # post" "\<forall>p\<in>set pre. \<not> matchesAt rest p"
      "matched rest sp = Some raw"
      by auto
    with False show ?thesis
      by (intro exI[of _ "UnOp x # pre"] exI[of _ post]) (simp add: matchesAt_def)
  qed
qed

lemma lex_OpTok_iff:
  assumes "strIdx < length strs"
    and "ci = skipSpace (strs ! strIdx) charIdx"
    and "ci < length (strs ! strIdx)"
  shows "lex h ops strs vals (strIdx, charIdx) = Inr (OpTok sp raw, cur) \<longleftrightarrow>
     cur = (strIdx, ci) \<and>
     (\<exists>pre post. concat ops = pre @ sp # post
        \<and> (\<forall>p\<in>set pre. \<not> matchesAt (drop ci (strs ! strIdx)) p)
        \<and> matched (drop ci (strs ! strIdx)) sp = Some raw)"
proof (cases "findOp (concat ops) (drop ci (strs ! strIdx))")
  case None
  then have "lex h ops strs vals (strIdx, charIdx) \<noteq> Inr (OpTok sp raw, cur)"
    using assms by (auto simp: lex_def Let_def split: option.splits)
  moreover have N: "\<forall>sp\<in>set (concat ops). \<not> matchesAt (drop ci (strs ! strIdx)) sp"
    using None by (simp only: findOp_None)
  moreover have "\<not> (\<exists>pre post. concat ops = pre @ sp # post
        \<and> (\<forall>p\<in>set pre. \<not> matchesAt (drop ci (strs ! strIdx)) p)
        \<and> matched (drop ci (strs ! strIdx)) sp = Some raw)"
  proof
    assume "\<exists>pre post. concat ops = pre @ sp # post
        \<and> (\<forall>p\<in>set pre. \<not> matchesAt (drop ci (strs ! strIdx)) p)
        \<and> matched (drop ci (strs ! strIdx)) sp = Some raw"
    then obtain pre post where E: "concat ops = pre @ sp # post"
      "matched (drop ci (strs ! strIdx)) sp = Some raw" by blast
    from E(1) have "sp \<in> set (concat ops)" by (simp del: set_concat)
    with N have "\<not> matchesAt (drop ci (strs ! strIdx)) sp" by blast
    with matched_matchesAt[OF E(2)] show False by simp
  qed
  ultimately show ?thesis by blast
next
  case (Some a)
  obtain sp' raw' where a: "a = (sp', raw')" by (cases a)
  have L: "lex h ops strs vals (strIdx, charIdx) = Inr (OpTok sp' raw', (strIdx, ci))"
    using assms Some a by (simp add: lex_def Let_def)
  from findOp_Some[OF Some[unfolded a]] obtain pre post where
    P: "concat ops = pre @ sp' # post" "\<forall>p\<in>set pre. \<not> matchesAt (drop ci (strs ! strIdx)) p"
       "matched (drop ci (strs ! strIdx)) sp' = Some raw'"
    by blast
  show ?thesis
  proof
    assume "lex h ops strs vals (strIdx, charIdx) = Inr (OpTok sp raw, cur)"
    with L have "sp = sp'" "raw = raw'" "cur = (strIdx, ci)" by simp_all
    with P show "cur = (strIdx, ci) \<and>
     (\<exists>pre post. concat ops = pre @ sp # post
        \<and> (\<forall>p\<in>set pre. \<not> matchesAt (drop ci (strs ! strIdx)) p)
        \<and> matched (drop ci (strs ! strIdx)) sp = Some raw)" by blast
  next
    assume R: "cur = (strIdx, ci) \<and>
     (\<exists>pre post. concat ops = pre @ sp # post
        \<and> (\<forall>p\<in>set pre. \<not> matchesAt (drop ci (strs ! strIdx)) p)
        \<and> matched (drop ci (strs ! strIdx)) sp = Some raw)"
    then obtain pre2 post2 where Q: "concat ops = pre2 @ sp # post2"
       "\<forall>p\<in>set pre2. \<not> matchesAt (drop ci (strs ! strIdx)) p"
       "matched (drop ci (strs ! strIdx)) sp = Some raw" by blast
    from findOp_first[OF Q(2) Q(3), of post2] Q(1) Some a have "sp' = sp" "raw' = raw" by simp_all
    with L R show "lex h ops strs vals (strIdx, charIdx) = Inr (OpTok sp raw, cur)" by simp
  qed
qed

lemmas lex_eval = lex_def advance_def Let_def skipSpace_def isSpace_def isNumber_def hole_def scanNumber_def

text \<open>
  C4. Inside a fragment, after the blanks, \<open>lex\<close> returns an operator token for spec
  \<open>sp\<close> with text \<open>raw\<close> exactly when \<open>sp\<close> is the first spec of the flattened table
  (tiers in order, each tier in its listed order) one of whose symbols starts the rest
  of the fragment, and \<open>raw\<close> is the first such symbol of \<open>sp\<close>; a symbol starts the
  rest when the rest is the symbol followed by some text, so a longer symbol declared later never
  wins. With the table of \<open>[['='], ['==']]\<close> the text \<open>==\<close> is two \<open>=\<close> tokens followed
  by the end of the input.
\<close>

theorem lex_first_match:
  "(strIdx < length strs \<and> ci = skipSpace (strs ! strIdx) charIdx \<and> ci < length (strs ! strIdx) \<longrightarrow>
      (lex h ops strs vals (strIdx, charIdx) = Inr (OpTok sp raw, cur) \<longleftrightarrow>
         cur = (strIdx, ci) \<and>
         (\<exists>pre post. concat ops = pre @ sp # post
            \<and> (\<forall>p\<in>set pre. \<forall>x\<in>set (symbols p). \<not> (\<exists>t. drop ci (strs ! strIdx) = x @ t))
            \<and> find (\<lambda>x. \<exists>t. drop ci (strs ! strIdx) = x @ t) (symbols sp) = Some raw)))
   \<and> processOps [[Sym ''=''], [Sym ''=='']] = Inr eqOps
   \<and> lex h eqOps [''==''] [] (0, 0) = Inr (OpTok (BinOp ''='') ''='', (0, 0))
   \<and> advance h eqOps [''==''] [] (0, 0) = Inr (0, 1)
   \<and> lex h eqOps [''==''] [] (0, 1) = Inr (OpTok (BinOp ''='') ''='', (0, 1))
   \<and> advance h eqOps [''==''] [] (0, 1) = Inr (0, 2)
   \<and> lex h eqOps [''==''] [] (0, 2) = Inr (LitTok Undefined, (0, 2))"
proof -
  have sw: "startsWith r = (\<lambda>x. \<exists>t. r = x @ t)" for r
    by (rule ext) (rule startsWith_iff)
  have "strIdx < length strs \<and> ci = skipSpace (strs ! strIdx) charIdx \<and> ci < length (strs ! strIdx) \<longrightarrow>
      (lex h ops strs vals (strIdx, charIdx) = Inr (OpTok sp raw, cur) \<longleftrightarrow>
         cur = (strIdx, ci) \<and>
         (\<exists>pre post. concat ops = pre @ sp # post
            \<and> (\<forall>p\<in>set pre. \<forall>x\<in>set (symbols p). \<not> (\<exists>t. drop ci (strs ! strIdx) = x @ t))
            \<and> find (\<lambda>x. \<exists>t. drop ci (strs ! strIdx) = x @ t) (symbols sp) = Some raw))"
    using lex_OpTok_iff[of strIdx strs ci charIdx h ops vals sp raw cur]
    by (simp add: matchesAt_def matched_def list_ex_iff sw)
  moreover have "processOps [[Sym ''=''], [Sym ''=='']] = Inr eqOps"
    by (simp add: processOps_def eqOps_def inject_def)
  moreover have "lex h eqOps [''==''] [] (0, 0) = Inr (OpTok (BinOp ''='') ''='', (0, 0))"
    by (simp add: lex_eval eqOps_def)
  moreover have "advance h eqOps [''==''] [] (0, 0) = Inr (0, 1)"
    by (simp add: lex_eval eqOps_def)
  moreover have "lex h eqOps [''==''] [] (0, 1) = Inr (OpTok (BinOp ''='') ''='', (0, 1))"
    by (simp add: lex_eval eqOps_def)
  moreover have "advance h eqOps [''==''] [] (0, 1) = Inr (0, 2)"
    by (simp add: lex_eval eqOps_def)
  moreover have "lex h eqOps [''==''] [] (0, 2) = Inr (LitTok Undefined, (0, 2))"
    by (simp add: lex_eval eqOps_def)
  ultimately show ?thesis by blast
qed

theorem lex_first_match_witness:
  "(0::nat) < length [''==''] \<and> 0 = skipSpace ([''==''] ! 0) 0 \<and> (0::nat) < length ([''==''] ! 0)
   \<and> lex exampleHost eqOps [''==''] [] (0, 0) \<noteq> Inr (OpTok (BinOp ''=='') ''=='', (0, 0))
   \<and> lex exampleHost eqOps [''==''] [] (0, 0) = Inr (OpTok (BinOp ''='') ''='', (0, 0))"
proof -
  have "\<not> (\<exists>pre post. concat eqOps = pre @ BinOp ''=='' # post
            \<and> (\<forall>p\<in>set pre. \<forall>x\<in>set (symbols p). \<not> (\<exists>t. drop 0 ([''==''] ! 0) = x @ t))
            \<and> find (\<lambda>x. \<exists>t. drop 0 ([''==''] ! 0) = x @ t) (symbols (BinOp ''=='')) = Some ''=='')"
  proof
    assume "\<exists>pre post. concat eqOps = pre @ BinOp ''=='' # post
            \<and> (\<forall>p\<in>set pre. \<forall>x\<in>set (symbols p). \<not> (\<exists>t. drop 0 ([''==''] ! 0) = x @ t))
            \<and> find (\<lambda>x. \<exists>t. drop 0 ([''==''] ! 0) = x @ t) (symbols (BinOp ''=='')) = Some ''==''"
    then obtain pre post where E: "concat eqOps = pre @ BinOp ''=='' # post"
      "\<forall>p\<in>set pre. \<forall>x\<in>set (symbols p). \<not> (\<exists>t. drop 0 ([''==''] ! 0) = x @ t)" by blast
    from E(1) have "pre \<noteq> []" by (auto simp: eqOps_def)
    with E(1) have "hd pre = BinOp ''=''" by (cases pre) (auto simp: eqOps_def)
    with \<open>pre \<noteq> []\<close> have "BinOp ''='' \<in> set pre" by (cases pre) auto
    with E(2) show False by force
  qed
  then show ?thesis
    using lex_first_match[of 0 "[''=='']" 0 0 exampleHost eqOps "[]" "BinOp ''==''" "''==''" "(0, 0)"]
    by (simp add: skipSpace_def isSpace_def)
qed

section \<open>Resolution of a binary operator\<close>

lemma viaRight_chain:
  assumes "right \<noteq> Null"
  shows "viaRight h (''operator'' @ symb) symb left right =
     (case firstSuccess
        (case right of
           Obj r \<Rightarrow>
             [attempt (inst h r (''operator'' @ symb)) [left],
              attempt (static h r (''operator'' @ symb)) [left, right]]
         | _ \<Rightarrow> []) of
        Some v \<Rightarrow> Inr v
      | None \<Rightarrow> operr2 h ''Operator error: cannot evaluate '' left ('' '' @ symb @ '' '') right)"
  using assms by (cases right) (simp_all add: viaRight_def split: option.splits)

lemma evalBin_object:
  assumes "left = Obj l" and "right \<noteq> Null"
  shows "evalBin h symb left right =
     (case inst h l (''operator'' @ symb) of
        Some f \<Rightarrow> call f [right]
      | None \<Rightarrow>
          (case firstSuccess (candidates h symb left right) of
             Some v \<Rightarrow> Inr v
           | None \<Rightarrow> exhausted h symb left right))"
  using assms
  by (cases right)
     (simp_all add: evalBin_def candidates_def exhausted_def Let_def split: option.splits)

lemma evalBin_primitive:
  assumes "typeof left \<noteq> TObject" and "right \<noteq> Null"
  shows "evalBin h symb left right =
     (case builtin h symb left right of
        Some v \<Rightarrow> Inr v
      | None \<Rightarrow>
          (case firstSuccess (candidates h symb left right) of
             Some v \<Rightarrow> Inr v
           | None \<Rightarrow> exhausted h symb left right))"
proof -
  let ?arith = "symb \<in> set [''-'', ''*'', ''/'']"
  let ?via = "viaRight h (''operator'' @ symb) symb left right"
  have E: "evalBin h symb left right =
     (if symb = ''+'' then (if strOrNum left \<and> strOrNum right then Inr (jsPlus h left right) else ?via)
      else if ?arith then
        (case (left, right) of
           (Num a, Num b) \<Rightarrow>
             Inr (Num (if symb = ''-'' then numSub h a b
                       else if symb = ''*'' then numMul h a b
                       else numDiv h a b))
         | _ \<Rightarrow> ?via)
      else operr1 h (''Operator error: operator'' @ symb @ '' is not a builtin or a callable on left operand '') left [])"
    using assms(1) by (cases left) (simp_all add: evalBin_def Let_def cong: val.case_cong)
  have C: "candidates h symb left right =
     (if symb = ''+'' \<or> ?arith then
        (case right of
           Obj r \<Rightarrow>
             [attempt (inst h r (''operator'' @ symb)) [left],
              attempt (static h r (''operator'' @ symb)) [left, right]]
         | _ \<Rightarrow> [])
      else [])"
    using assms(1) by (cases left) (simp_all add: candidates_def cong: val.case_cong)
  have X: "exhausted h symb left right =
     (if symb = ''+'' \<or> ?arith then
        operr2 h ''Operator error: cannot evaluate '' left ('' '' @ symb @ '' '') right
      else operr1 h (''Operator error: operator'' @ symb @ '' is not a builtin or a callable on left operand '') left [])"
    using assms(1) by (cases left) (simp_all add: exhausted_def cong: val.case_cong)
  note V = viaRight_chain[OF assms(2), of h symb left]
  show ?thesis
  proof (cases "symb = ''+''")
    case True
    show ?thesis
      unfolding E C X V builtin_def using True by (simp cong: option.case_cong)
  next
    case plus: False
    show ?thesis
    proof (cases ?arith)
      case True
      have B: "builtin h symb left right =
         (case (left, right) of
            (Num a, Num b) \<Rightarrow>
              Some (Num (if symb = ''-'' then numSub h a b
                         else if symb = ''*'' then numMul h a b
                         else numDiv h a b))
          | _ \<Rightarrow> None)"
        using plus True by (cases left; cases right) (auto simp: builtin_def)
      show ?thesis
        unfolding E C X B V using plus True assms(2)
        by (cases left; cases right) (simp_all cong: val.case_cong)
    next
      case False
      then have "builtin h symb left right = None"
        using plus by (cases left; cases right) (simp_all add: builtin_def)
      then show ?thesis
        unfolding E C X using plus False by simp
    qed
  qed
qed

lemma evalBin_resolve:
  assumes "left \<noteq> Null" and "right \<noteq> Null"
  shows "evalBin h symb left right = resolve h symb left right"
proof (cases "typeof left = TObject")
  case True
  with assms(1) obtain l where l: "left = Obj l" by (cases left) simp_all
  show ?thesis
    unfolding evalBin_object[OF l assms(2)] by (simp add: resolve_def l cong: option.case_cong)
next
  case False
  then have "(case left of Obj l \<Rightarrow> inst h l (''operator'' @ symb) | _ \<Rightarrow> None) = None"
    "(case left of Obj l \<Rightarrow> None | _ \<Rightarrow> builtin h symb left right) = builtin h symb left right"
    by (cases left; simp)+
  then show ?thesis
    unfolding evalBin_primitive[OF False assms(2)] by (simp add: resolve_def)
qed









lemma ex_eval1: "evalBin exampleHost ''+'' (Obj 2) (Obj 3) =
   Inl (Error (''Operator error: operator+ is not a callable on left operand Object or a static function on either operand'' @ sq @ ''s types''))"
  by (simp add: evalBin_def exampleHost_def attempt_def operr1_def Let_def)

lemma ex_eval2: "evalBin exampleHost ''+'' (Num 2) (Obj 3) = Inr (Str ''B.operator+'')"
  by (simp add: evalBin_def exampleHost_def attempt_def viaRight_def strOrNum_def Let_def)

lemma ex_op1: "op exampleHost defaultOps (Suc (Suc (Suc (Suc (Suc (Suc (Suc (Suc k)))))))) [[], '' + '', []] [Obj 2, Obj 3] =
   Some (Inl (Error (''Operator error: operator+ is not a callable on left operand Object or a static function on either operand'' @ sq @ ''s types'')))"
  by (simp add: op_def bindE_def bindP_def bindR_def throw_def lex_eval unarySpec_def tierHas_def defaultOps_def
      evalLit_def ex_eval1)

lemma fuel8: "(8::nat) = Suc (Suc (Suc (Suc (Suc (Suc (Suc (Suc 0)))))))"
  by simp

text \<open>
  C1, as the code has it. For operands that are not \<open>null\<close>, a binary node is resolved
  in this order. Left operand an object: its own method \<open>operator\<close>+symbol, called with
  the right operand (what it returns or throws is the outcome); else the static function
  of the left operand's constructor, called with both operands; else, when the right
  operand is an object, the static function of its constructor; else the error. The
  right operand's own method is not a candidate here. Left operand not an object: for
  \<open>+\<close> on strings and numbers and for \<open>-\<close>, \<open>*\<close>, \<open>/\<close> on numbers the host's
  operation; else, for these four symbols and a right operand that is an object, the
  right operand's own method called with the left operand, then the static function of
  its constructor; else the error. Both operands are evaluated first.
\<close>

theorem binary_resolution_order:
  "(left \<noteq> Null \<and> right \<noteq> Null \<longrightarrow> evalBin h symb left right = resolve h symb left right)
   \<and> evalOps h (BinNode (BinOp symb) l r) =
       bindR (evalOps h l) (\<lambda>left. bindR (evalOps h r) (\<lambda>right. evalBin h symb left right))
   \<and> candidates h symb (Obj a) (Obj b) =
       [attempt (static h a (''operator'' @ symb)) [Obj a, Obj b],
        attempt (static h b (''operator'' @ symb)) [Obj a, Obj b]]
   \<and> candidates h ''+'' (Num n) (Obj b) =
       [attempt (inst h b ''operator+'') [Num n],
        attempt (static h b ''operator+'') [Num n, Obj b]]"
  using evalBin_resolve[of left right h symb]
  by (simp add: candidates_def)

theorem binary_resolution_order_witness:
  "Num 2 \<noteq> (Null :: nat val) \<and> Obj 3 \<noteq> (Null :: nat val)
   \<and> resolve exampleHost ''+'' (Num 2) (Obj 3) = Inr (Str ''B.operator+'')
   \<and> evalBin exampleHost ''+'' (Num 2) (Obj 3) = Inr (Str ''B.operator+'')"
  using binary_resolution_order[of "Num 2" "Obj 3" exampleHost "''+''"] ex_eval2
  by simp

text \<open>
  C1 as stated fails: object 2 has no method \<open>operator+\<close> and a constructor whose
  \<open>operator+\<close> throws, object 3 has a method \<open>operator+\<close> that returns; the sum of the
  two, in this order, is the operator error and not what the method of object 3 returns.
\<close>

theorem binary_resolution_counterexample:
  "inst exampleHost 2 ''operator+'' = None
   \<and> static exampleHost 2 ''operator+'' \<noteq> None
   \<and> attempt (static exampleHost 2 ''operator+'') [Obj 2, Obj 3] = None
   \<and> attempt (inst exampleHost 3 ''operator+'') [Obj 2] = Some (Str ''B.operator+'')
   \<and> evalBin exampleHost ''+'' (Obj 2) (Obj 3) =
       Inl (Error (''Operator error: operator+ is not a callable on left operand Object or a static function on either operand''
                   @ sq @ ''s types''))
   \<and> op exampleHost defaultOps 8 [[], '' + '', []] [Obj 2, Obj 3] =
       Some (Inl (Error (''Operator error: operator+ is not a callable on left operand Object or a static function on either operand''
                   @ sq @ ''s types'')))"
proof -
  have "op exampleHost defaultOps 8 [[], '' + '', []] [Obj 2, Obj 3] =
       Some (Inl (Error (''Operator error: operator+ is not a callable on left operand Object or a static function on either operand''
                   @ sq @ ''s types'')))"
    unfolding fuel8 by (rule ex_op1)
  moreover have "inst exampleHost 2 ''operator+'' = None"
    "static exampleHost 2 ''operator+'' \<noteq> None"
    "attempt (static exampleHost 2 ''operator+'') [Obj 2, Obj 3] = None"
    "attempt (inst exampleHost 3 ''operator+'') [Obj 2] = Some (Str ''B.operator+'')"
    by (simp_all add: exampleHost_def attempt_def)
  ultimately show ?thesis using ex_eval1 by blast
qed

section \<open>Exceptions of candidates\<close>



lemma builtin_Obj: "builtin h symb left (Obj b) = None"
  by (cases left) (simp_all add: builtin_def strOrNum_def)





lemma ex_eval4: "evalBin exampleHost ''+'' (Num 1) (Obj 6) = Inr (Str ''static of 6'')"
  by (simp add: evalBin_def exampleHost_def attempt_def viaRight_def strOrNum_def Let_def)






section \<open>Table construction\<close>

lemma inject_eq: "inject all s = (if list_ex (uses s) all then [] else [UnOp s])"
  by (simp add: inject_def)

lemma processOps_fails:
  "(\<exists>e. processOps decls = Inl e) \<longleftrightarrow> \<not> (\<exists>tier\<in>set decls. tier \<noteq> [])"
  by (auto simp: processOps_def Let_def list_ex_iff)

lemma processOps_error:
  "processOps decls = Inl e \<Longrightarrow> e = Error ''No operators supplied''"
  by (auto simp: processOps_def Let_def split: if_splits)

lemma processOps_ok:
  assumes "\<exists>tier\<in>set decls. tier \<noteq> []"
  shows "processOps decls =
     Inr (butlast (map (map normalize) decls) @
          [last (map (map normalize) decls) @
           concat (map (\<lambda>s. if list_ex (uses s) (declared decls) then [] else [UnOp s]) structural)])"
proof -
  from assms have "decls \<noteq> []" by auto
  with assms show ?thesis
    by (simp add: processOps_def Let_def list_ex_iff structural_def declared_def inject_eq)
qed

lemma processOps_covers:
  assumes "processOps decls = Inr out" and "s \<in> set structural"
  shows "list_ex (uses s) (concat out)"
proof -
  from assms(1) have ne: "\<exists>tier\<in>set decls. tier \<noteq> []" 
    by (auto simp: processOps_def Let_def list_ex_iff split: if_splits)
  then have d: "decls \<noteq> []" by auto
  let ?n = "map (map normalize) decls"
  let ?add = "concat (map (\<lambda>s. if list_ex (uses s) (declared decls) then [] else [UnOp s]) structural)"
  have out: "out = butlast ?n @ [last ?n @ ?add]"
    using processOps_ok[OF ne] assms(1) by simp
  have n: "?n = butlast ?n @ [last ?n]" using d by simp
  have "set (concat out) = set (concat (butlast ?n)) \<union> set (last ?n) \<union> set ?add"
    unfolding out by (simp add: Un_assoc)
  also have "set (concat (butlast ?n)) \<union> set (last ?n) = set (concat (butlast ?n @ [last ?n]))"
    by simp
  also have "\<dots> = set (declared decls)" using n by (simp add: declared_def)
  finally have S: "set (concat out) = set (declared decls) \<union> set ?add" .
  show ?thesis
  proof (cases "list_ex (uses s) (declared decls)")
    case True
    then show ?thesis unfolding list_ex_iff S by blast
  next
    case False
    then have "UnOp s \<in> set ?add" using assms(2) by (auto simp: structural_def)
    then have "UnOp s \<in> set (concat out)" unfolding S by blast
    moreover have "uses s (UnOp s)" by simp
    ultimately show ?thesis unfolding list_ex_iff by blast
  qed
qed

text \<open>
  C3, as the code has it. Construction fails, with \<open>No operators supplied\<close>, exactly
  when no tier holds a spec. Otherwise it returns the normalized tiers, the last one
  followed by a synthetic spec of type \<open>'un'\<close> for each of the symbols \<open>(\<close>, \<open>)\<close> and
  \<open>,\<close>, in this order, that no declared spec of any type uses (as its symbol or as one
  of its two bracket parts). So each of the three symbols is used by some spec of the
  table the lexer scans. The default table gets the comma only.
\<close>

theorem processOps_structural:
  "((\<exists>e. processOps decls = Inl e) \<longleftrightarrow> \<not> (\<exists>tier\<in>set decls. tier \<noteq> []))
   \<and> (processOps decls = Inl e \<longrightarrow> e = Error ''No operators supplied'')
   \<and> ((\<exists>tier\<in>set decls. tier \<noteq> []) \<longrightarrow>
        processOps decls =
          Inr (butlast (map (map normalize) decls) @
               [last (map (map normalize) decls) @
                concat (map (\<lambda>s. if list_ex (uses s) (declared decls) then [] else [UnOp s]) structural)]))
   \<and> (processOps decls = Inr out \<and> s \<in> set structural \<longrightarrow> list_ex (uses s) (concat out))
   \<and> processOps defaultDecls = Inr defaultOps"
proof -
  have "processOps defaultDecls = Inr defaultOps"
    by (simp add: processOps_def inject_def defaultDecls_def defaultOps_def)
  with processOps_fails[of decls] processOps_error[of decls e] processOps_ok[of decls]
    processOps_covers[of decls out s]
  show ?thesis by simp
qed

theorem processOps_structural_witness:
  "processOps [[Sym ''+'']] = Inr [[BinOp ''+'', UnOp ''('', UnOp '')'', UnOp '','']]
   \<and> list_ex (\<lambda>tier. tier \<noteq> []) [[Sym ''+'']]
   \<and> processOps [[Sym ''+''], [Spec (FnOp ''['' '']''), Spec (UnOp '','')]] =
       Inr [[BinOp ''+''], [FnOp ''['' '']'', UnOp '','', UnOp ''('', UnOp '')'']]"
  using processOps_structural[of "[[Sym ''+'']]"]
    processOps_structural[of "[[Sym ''+''], [Spec (FnOp ''['' '']''), Spec (UnOp '','')]]"]
  by (simp add: structural_def declared_def)

text \<open>
  C3 as stated fails: the table \<open>[['+'], [{type: 'fn', parts: ['f(', ')']}]]\<close> has a
  non-empty tier and declares neither a bracket spec \<open>(\<close> \<open>)\<close> nor a binary comma,
  and the table built from it has no synthetic spec for \<open>)\<close>.
\<close>

theorem processOps_structural_counterexample:
  "list_ex (\<lambda>tier. tier \<noteq> []) [[Sym ''+''], [Spec (FnOp ''f('' '')'')]]
   \<and> FnOp ''('' '')'' \<notin> set (declared [[Sym ''+''], [Spec (FnOp ''f('' '')'')]])
   \<and> BinOp '','' \<notin> set (declared [[Sym ''+''], [Spec (FnOp ''f('' '')'')]])
   \<and> processOps [[Sym ''+''], [Spec (FnOp ''f('' '')'')]] =
       Inr [[BinOp ''+''], [FnOp ''f('' '')'', UnOp ''('', UnOp '','']]
   \<and> UnOp '')'' \<notin> set (concat [[BinOp ''+''], [FnOp ''f('' '')'', UnOp ''('', UnOp '','']])"
  by (simp add: processOps_def inject_def declared_def)

section \<open>Advancing past a token\<close>

lemma skipSpace_idem: "skipSpace s (skipSpace s i) = skipSpace s i"
proof -
  have "drop (i + length (takeWhile isSpace (drop i s))) s = dropWhile isSpace (drop i s)"
    by (metis add.commute drop_drop dropWhile_eq_drop)
  moreover have "takeWhile isSpace (dropWhile isSpace xs) = []" for xs
    by (induction xs) auto
  ultimately show ?thesis by (simp add: skipSpace_def)
qed

lemma lex_cursor:
  assumes "lex h ops strs vals (si, ci) = Inr (tok, cur)"
  shows "cur = (si, if si < length strs then skipSpace (strs ! si) ci else ci)"
  using assms by (auto simp: lex_def Let_def split: if_splits option.splits)

lemma lex_idem:
  assumes "lex h ops strs vals cur = Inr (tok, cur')"
  shows "lex h ops strs vals cur' = Inr (tok, cur')"
proof -
  obtain si ci where c: "cur = (si, ci)" by (cases cur)
  show ?thesis
  proof (cases "si < length strs")
    case False
    with assms c have "tok = LitTok Undefined" "cur' = (si, ci)" by (auto simp: lex_def)
    with False show ?thesis by (simp add: lex_def)
  next
    case True
    with lex_cursor[OF assms[unfolded c]] have c': "cur' = (si, skipSpace (strs ! si) ci)" by simp
    have "lex h ops strs vals (si, skipSpace (strs ! si) ci) = lex h ops strs vals (si, ci)"
      unfolding lex_def prod.case Let_def skipSpace_idem using True by simp
    with assms c c' show ?thesis by simp
  qed
qed

lemma advance_after_lex:
  assumes "lex h ops strs vals cur = Inr (tok, (si, ci))" and "si < length strs"
  shows "advance h ops strs vals (si, ci) =
     (if length (strs ! si) \<le> ci then Inr (si + 1, 0)
      else (case width h tok of Inl e \<Rightarrow> Inl e | Inr w \<Rightarrow> Inr (si, ci + w)))"
  using lex_idem[OF assms(1)] assms(2) by (simp add: advance_def)

lemma n007: "natOfDigits ''007'' = 7" by (simp add: natOfDigits_def digitVal_def)
lemma s7: "showNat 7 = ''7''" by (simp add: showNat.simps[of 7])

lemma adv007: "advance exampleHost defaultOps [''007''] [] (0, 0) = Inr (0, 1)"
  by (simp add: lex_eval defaultOps_def exampleHost_def n007 s7)

lemma lex007: "lex exampleHost defaultOps [''007''] [] (0, 0) = Inr (LitTok (Num 7), (0, 0))"
  by (simp add: lex_eval defaultOps_def exampleHost_def n007 s7)

lemma n07: "natOfDigits ''07'' = 7" by (simp add: natOfDigits_def digitVal_def)
lemma n7: "natOfDigits ''7'' = 7" by (simp add: natOfDigits_def digitVal_def)

lemma op007: "op exampleHost defaultOps (Suc (Suc (Suc (Suc (Suc (Suc k)))))) [''007''] [] = Some (Inl (Error ''Syntax error: expected operator''))"
  by (simp add: op_def bindE_def bindP_def bindR_def throw_def lex_eval unarySpec_def tierHas_def defaultOps_def
      evalLit_def exampleHost_def n007 n07 s7)

lemma op7: "op exampleHost defaultOps (Suc (Suc (Suc (Suc (Suc (Suc k)))))) [''7''] [] = Some (Inr (Num 7))"
  by (simp add: op_def bindE_def bindP_def bindR_def throw_def lex_eval unarySpec_def tierHas_def defaultOps_def
      evalLit_def exampleHost_def n7 s7)

lemma fuel6: "(6::nat) = Suc (Suc (Suc (Suc (Suc (Suc 0)))))"
  by simp

text \<open>
  C5. After a peek (\<open>advance_after_lex\<close>) the cursor moves to the start of the next
  fragment for a hole, and by \<open>width\<close> inside a fragment: the length of the matched
  symbol, the length of the string's content plus 2, and for a numeric literal the
  length of what the parsed number prints as, which is not the length of the digit run.
  The run \<open>007\<close> is read as 7 and the cursor moves by 1, not by 3; the rest \<open>07\<close> is then
  lexed as a second literal, and the expression \<open>007\<close> throws where \<open>7\<close> returns 7.
\<close>

theorem advance_numeric_literal:
  "lex exampleHost defaultOps [''007''] [] (0, 0) = Inr (LitTok (Num 7), (0, 0))
   \<and> length (scanNumber ''007'') = 3
   \<and> advance exampleHost defaultOps [''007''] [] (0, 0) = Inr (0, 1)
   \<and> op exampleHost defaultOps 6 [''007''] [] = Some (Inl (Error ''Syntax error: expected operator''))
   \<and> op exampleHost defaultOps 6 [''7''] [] = Some (Inr (Num 7))"
proof -
  have "length (scanNumber ''007'') = 3"
    by (simp add: scanNumber_def isSpace_def isNumber_def)
  moreover have "op exampleHost defaultOps 6 [''007''] [] = Some (Inl (Error ''Syntax error: expected operator''))"
    unfolding fuel6 by (rule op007)
  moreover have "op exampleHost defaultOps 6 [''7''] [] = Some (Inr (Num 7))"
    unfolding fuel6 by (rule op7)
  ultimately show ?thesis using lex007 adv007 by simp
qed

section \<open>The parser: general facts\<close>

lemma bindE_Inr: "bindE r k = Some (Inr x) \<longleftrightarrow> (\<exists>y. r = Inr y \<and> k y = Some (Inr x))"
  by (cases r) (simp_all add: bindE_def)

lemma bindP_Inr: "bindP r k = Some (Inr x) \<longleftrightarrow> (\<exists>y. r = Some (Inr y) \<and> k y = Some (Inr x))"
proof (cases r)
  case None
  then show ?thesis by (simp add: bindP_def)
next
  case (Some a)
  then show ?thesis by (cases a) (simp_all add: bindP_def)
qed

lemma foldClauses_foldl:
  "foldClauses left clauses = foldl (\<lambda>acc (sp, right). BinNode sp acc right) left clauses"
  by (induction left clauses rule: foldClauses.induct) simp_all

lemma parseChain_recorded:
  "parseChain h ops strs vals n i left acc tok cur = Some (Inr (t, cur')) \<longleftrightarrow>
     (\<exists>clauses. recorded h ops strs vals n i tok cur clauses cur' \<and> t = foldClauses left (acc @ clauses))"
proof (induction n arbitrary: acc tok cur)
  case 0
  show ?case by simp
next
  case (Suc n)
  have stop: ?case
    if S: "\<And>clauses. recorded h ops strs vals (Suc n) i tok cur clauses cur' \<longleftrightarrow> clauses = [] \<and> cur' = cur"
      and P: "parseChain h ops strs vals (Suc n) i left acc tok cur = Some (Inr (foldClauses left acc, cur))"
  proof -
    have "(\<exists>clauses. recorded h ops strs vals (Suc n) i tok cur clauses cur' \<and> t = foldClauses left (acc @ clauses))
           \<longleftrightarrow> cur' = cur \<and> t = foldClauses left acc"
      unfolding S by auto
    then show ?thesis unfolding P by auto
  qed
  have none: ?case
    if S: "\<And>clauses. \<not> recorded h ops strs vals (Suc n) i tok cur clauses cur'"
      and P: "parseChain h ops strs vals (Suc n) i left acc tok cur \<noteq> Some (Inr (t, cur'))"
    using S P by blast
  show ?case
  proof (cases tok)
    case (LitTok v)
    show ?thesis
    proof (rule stop)
      show "recorded h ops strs vals (Suc n) i tok cur clauses cur' \<longleftrightarrow> clauses = [] \<and> cur' = cur" for clauses
        unfolding LitTok by (cases clauses) auto
      show "parseChain h ops strs vals (Suc n) i left acc tok cur = Some (Inr (foldClauses left acc, cur))"
        unfolding LitTok by simp
    qed
  next
    case (OpTok sp raw)
    show ?thesis
    proof (cases "tierHas (ops ! i) raw")
      case False
      show ?thesis
      proof (rule stop)
        show "recorded h ops strs vals (Suc n) i tok cur clauses cur' \<longleftrightarrow> clauses = [] \<and> cur' = cur" for clauses
          unfolding OpTok using False by (cases clauses) auto
        show "parseChain h ops strs vals (Suc n) i left acc tok cur = Some (Inr (foldClauses left acc, cur))"
          unfolding OpTok using False by simp
      qed
    next
      case True
      show ?thesis
      proof (cases "advance h ops strs vals cur")
        case (Inl e)
        show ?thesis
        proof (rule none)
          show "\<not> recorded h ops strs vals (Suc n) i tok cur clauses cur'" for clauses
            unfolding OpTok using True Inl by (cases clauses) auto
          show "parseChain h ops strs vals (Suc n) i left acc tok cur \<noteq> Some (Inr (t, cur'))"
            unfolding OpTok using True Inl by (simp add: bindE_def)
        qed
      next
        case (Inr c)
        show ?thesis
        proof (cases "\<exists>r c'. parseLevel h ops strs vals n i c = Some (Inr (r, c'))")
          case False
          show ?thesis
          proof (rule none)
            show "\<not> recorded h ops strs vals (Suc n) i tok cur clauses cur'" for clauses
              unfolding OpTok using True Inr False
              by (cases clauses) (auto split: option.splits sum.splits)
            show "parseChain h ops strs vals (Suc n) i left acc tok cur \<noteq> Some (Inr (t, cur'))"
              unfolding OpTok using True Inr False
              by (auto simp: bindE_def bindP_def split: option.splits sum.splits)
          qed
        next
          case P: True
          then obtain r c' where R: "parseLevel h ops strs vals n i c = Some (Inr (r, c'))" by blast
          show ?thesis
          proof (cases "lex h ops strs vals c'")
            case L: (Inl e)
            show ?thesis
            proof (rule none)
              show "\<not> recorded h ops strs vals (Suc n) i tok cur clauses cur'" for clauses
                unfolding OpTok using True Inr R L by (cases clauses) auto
              show "parseChain h ops strs vals (Suc n) i left acc tok cur \<noteq> Some (Inr (t, cur'))"
                unfolding OpTok using True Inr R L by (simp add: bindE_def bindP_def)
            qed
          next
            case L: (Inr x)
            obtain tok' c'' where x: "x = (tok', c'')" by (cases x)
            have S: "recorded h ops strs vals (Suc n) i tok cur clauses cur' \<longleftrightarrow>
                       (\<exists>cl. clauses = (sp, r) # cl \<and> recorded h ops strs vals n i tok' c'' cl cur')" for clauses
              unfolding OpTok using True Inr R L x by (cases clauses) auto
            have C: "parseChain h ops strs vals (Suc n) i left acc tok cur =
                       parseChain h ops strs vals n i left (acc @ [(sp, r)]) tok' c''"
              unfolding OpTok using True Inr R L x by (simp add: bindE_def bindP_def)
            show ?thesis
              unfolding C Suc.IH S by auto
          qed
        qed
      qed
    qed
  qed
qed

lemma recorded_Cons:
  assumes "recorded h ops strs vals (Suc n) i tok cur ((sp, right) # clauses) cur'"
  obtains raw c c' tok' c'' where "tok = OpTok sp raw" and "tierHas (ops ! i) raw"
    and "advance h ops strs vals cur = Inr c"
    and "parseLevel h ops strs vals n i c = Some (Inr (right, c'))"
    and "lex h ops strs vals c' = Inr (tok', c'')"
    and "recorded h ops strs vals n i tok' c'' clauses cur'"
proof (cases tok)
  case (LitTok v)
  with assms show ?thesis by simp
next
  case (OpTok sp' raw)
  with assms have sp: "sp' = sp" and T: "tierHas (ops ! i) raw" by simp_all
  show ?thesis
  proof (cases "advance h ops strs vals cur")
    case (Inl e)
    with assms OpTok show ?thesis by simp
  next
    case (Inr c)
    show ?thesis
    proof (cases "parseLevel h ops strs vals n i c")
      case None
      with assms OpTok Inr show ?thesis by simp
    next
      case (Some a)
      show ?thesis
      proof (cases a)
        case (Inl e)
        with assms OpTok Inr Some show ?thesis by simp
      next
        case R: (Inr p)
        obtain r c' where p: "p = (r, c')" by (cases p)
        from assms OpTok Inr Some R p have r: "r = right" by simp
        show ?thesis
        proof (cases "lex h ops strs vals c'")
          case (Inl e)
          with assms OpTok Inr Some R p show ?thesis by simp
        next
          case L: (Inr q)
          obtain tok' c'' where q: "q = (tok', c'')" by (cases q)
          from assms OpTok Inr Some R p L q have "recorded h ops strs vals n i tok' c'' clauses cur'" by simp
          with that[of raw c c' tok' c''] OpTok sp T Inr Some R p r L q show ?thesis by simp
        qed
      qed
    qed
  qed
qed

lemma recorded_unique:
  "recorded h ops strs vals n i tok cur cl1 c1 \<Longrightarrow> recorded h ops strs vals n i tok cur cl2 c2
     \<Longrightarrow> cl1 = cl2 \<and> c1 = c2"
proof (induction n arbitrary: tok cur cl1 cl2)
  case 0
  then show ?case by simp
next
  case (Suc n)
  show ?case
  proof (cases cl1)
    case N1: Nil
    show ?thesis
    proof (cases cl2)
      case Nil
      with N1 Suc.prems show ?thesis by simp
    next
      case (Cons a list)
      with N1 Suc.prems show ?thesis by (cases a; cases tok) auto
    qed
  next
    case C1: (Cons a1 l1)
    show ?thesis
    proof (cases cl2)
      case Nil
      with C1 Suc.prems show ?thesis by (cases a1; cases tok) auto
    next
      case (Cons a2 l2)
      obtain sp1 r1 where a1: "a1 = (sp1, r1)" by (cases a1)
      obtain sp2 r2 where a2: "a2 = (sp2, r2)" by (cases a2)
      from Suc.prems(1) have "recorded h ops strs vals (Suc n) i tok cur ((sp1, r1) # l1) c1"
        unfolding C1 a1 .
      then obtain raw c c' tok' c'' where
        T: "tok = OpTok sp1 raw" and A: "advance h ops strs vals cur = Inr c"
        and P: "parseLevel h ops strs vals n i c = Some (Inr (r1, c'))"
        and L: "lex h ops strs vals c' = Inr (tok', c'')"
        and R1: "recorded h ops strs vals n i tok' c'' l1 c1"
        by (rule recorded_Cons)
      from Suc.prems(2) have "recorded h ops strs vals (Suc n) i tok cur ((sp2, r2) # l2) c2"
        unfolding Cons a2 .
      with T A P L have "sp2 = sp1" "r2 = r1" and R2: "recorded h ops strs vals n i tok' c'' l2 c2"
        by simp_all
      from Suc.IH[OF R1 R2] \<open>sp2 = sp1\<close> \<open>r2 = r1\<close> C1 Cons a1 a2 show ?thesis by simp
    qed
  qed
qed

lemma tier_recorded:
  assumes "i < length ops"
    and "parseLevel h ops strs vals n i cur = Some (Inr (left, c1))"
    and "lex h ops strs vals c1 = Inr (OpTok sp raw, c2)"
    and "recorded h ops strs vals n i (OpTok sp raw) c2 clauses cur'"
  shows "parseLevel h ops strs vals (Suc n) (Suc i) cur =
           Some (Inr (foldl (\<lambda>acc (sp, right). BinNode sp acc right) left clauses, cur'))"
proof -
  have "parseChain h ops strs vals n i left [] (OpTok sp raw) c2 =
          Some (Inr (foldClauses left ([] @ clauses), cur'))"
    unfolding parseChain_recorded using assms(4) by blast
  with assms(1-3) show ?thesis
    by (simp add: bindE_def bindP_def foldClauses_foldl)
qed

lemma tier_returns:
  assumes "parseLevel h ops strs vals (Suc n) (Suc i) cur = Some (Inr (t, cur'))"
  shows "\<exists>left c1 tok c2.
           parseLevel h ops strs vals n i cur = Some (Inr (left, c1))
           \<and> lex h ops strs vals c1 = Inr (tok, c2)
           \<and> (if tok = LitTok Undefined then t = left \<and> advance h ops strs vals c2 = Inr cur'
              else \<exists>clauses. recorded h ops strs vals n i tok c2 clauses cur'
                     \<and> t = foldl (\<lambda>acc (sp, right). BinNode sp acc right) left clauses)"
proof -
  from assms have i: "i < length ops" by (auto split: if_splits)
  with assms obtain left cur1 tok cur2 where
    L: "parseLevel h ops strs vals n i cur = Some (Inr (left, cur1))"
    and X: "lex h ops strs vals cur1 = Inr (tok, cur2)"
    and R: "(case tok of
            LitTok v \<Rightarrow>
              if v = Undefined then bindE (advance h ops strs vals cur2) (\<lambda>cur. Some (Inr (left, cur)))
              else throw ''Syntax error: expected operator''
          | OpTok sp raw \<Rightarrow> parseChain h ops strs vals n i left [] tok cur2) = Some (Inr (t, cur'))"
    by (auto simp: bindE_Inr bindP_Inr)
  have "if tok = LitTok Undefined then t = left \<and> advance h ops strs vals cur2 = Inr cur'
        else \<exists>clauses. recorded h ops strs vals n i tok cur2 clauses cur'
               \<and> t = foldl (\<lambda>acc (sp, right). BinNode sp acc right) left clauses"
  proof (cases tok)
    case (LitTok v)
    with R show ?thesis by (auto simp: bindE_Inr throw_def split: if_splits)
  next
    case (OpTok sp raw)
    with R have "parseChain h ops strs vals n i left [] tok cur2 = Some (Inr (t, cur'))" by simp
    then obtain clauses where "recorded h ops strs vals n i tok cur2 clauses cur'"
      "t = foldClauses left ([] @ clauses)"
      unfolding parseChain_recorded by blast
    with OpTok show ?thesis by (auto simp: foldClauses_foldl)
  qed
  with L X show ?thesis by blast
qed


lemma throw_not_Inr: "throw m \<noteq> Some (Inr x)"
  by (simp add: throw_def)

lemma literals_foldClauses:
  "set (literals (foldClauses left clauses)) = set (literals left) \<union> (\<Union>(sp, r)\<in>set clauses. set (literals r))"
  by (induction left clauses rule: foldClauses.induct) auto

lemma parserOk_levelD:
  "parserOk h ops strs vals n \<Longrightarrow> parseLevel h ops strs vals n lvl cur = Some (Inr (t, c))
     \<Longrightarrow> Undefined \<notin> set (literals t)"
  unfolding parserOk_def by blast

lemma parserOk_argsD:
  "parserOk h ops strs vals n \<Longrightarrow> parseArgs h ops strs vals n closing v args tok cur = Some (Inr (t, c))
     \<Longrightarrow> v \<noteq> Undefined \<Longrightarrow> (\<forall>a\<in>set args. Undefined \<notin> set (literals a)) \<Longrightarrow> Undefined \<notin> set (literals t)"
  unfolding parserOk_def by blast

lemma parserOk_chainD:
  "parserOk h ops strs vals n \<Longrightarrow> parseChain h ops strs vals n i left clauses tok cur = Some (Inr (t, c))
     \<Longrightarrow> Undefined \<notin> set (literals left) \<Longrightarrow> (\<forall>(sp, r)\<in>set clauses. Undefined \<notin> set (literals r))
     \<Longrightarrow> Undefined \<notin> set (literals t)"
  unfolding parserOk_def by blast

lemma ok_primary:
  assumes IH: "parserOk h ops strs vals n"
    and P: "parseLevel h ops strs vals (Suc n) 0 cur = Some (Inr (t, c))"
  shows "Undefined \<notin> set (literals t)"
proof -
  from P obtain tok c1 where L: "lex h ops strs vals cur = Inr (tok, c1)"
    by (auto simp: bindE_Inr)
  show ?thesis
  proof (cases tok)
    case (OpTok sp raw)
    show ?thesis
    proof (cases "raw = ''(''")
      case True
      with P L OpTok obtain c2 e c3 cp c4 where
        E: "parseLevel h ops strs vals n (length ops) c2 = Some (Inr (e, c3))"
        and "lex h ops strs vals c3 = Inr (cp, c4)"
        and R: "(case cp of
                 OpTok sp' raw' \<Rightarrow>
                   if raw' = '')'' then bindE (advance h ops strs vals c4) (\<lambda>cur. Some (Inr (e, cur)))
                   else throw (''Syntax error: unterminated '' @ sq @ ''('' @ sq)
               | LitTok v \<Rightarrow> throw (''Syntax error: unterminated '' @ sq @ ''('' @ sq)) = Some (Inr (t, c))"
        by (auto simp: bindE_Inr bindP_Inr)
      from R have "t = e"
        by (cases cp) (auto simp: bindE_Inr throw_not_Inr split: if_splits)
      with parserOk_levelD[OF IH E] show ?thesis by simp
    next
      case False
      with P L OpTok obtain u c2 e c3 where
        "parseLevel h ops strs vals n (length ops) c2 = Some (Inr (e, c3))" "t = UnNode u e"
        by (auto simp: bindE_Inr bindP_Inr throw_not_Inr split: option.splits)
      with parserOk_levelD[OF IH this(1)] show ?thesis by simp
    qed
  next
    case (LitTok v)
    with P L obtain c2 where A: "advance h ops strs vals c1 = Inr c2" and V: "v \<noteq> Undefined"
      and R: "bindE (lex h ops strs vals c2) (\<lambda>(nextTok, cur).
                 case nextTok of
                   OpTok (FnOp a b) raw \<Rightarrow>
                     if raw = a then
                       bindE (advance h ops strs vals cur) (\<lambda>cur.
                       bindE (lex h ops strs vals cur) (\<lambda>(nextTok, cur).
                         parseArgs h ops strs vals n b v [] nextTok cur))
                     else Some (Inr (Lit v, cur))
                 | _ \<Rightarrow> Some (Inr (Lit v, cur))) = Some (Inr (t, c))"
      by (auto simp: bindE_Inr throw_not_Inr split: if_splits)
    from R obtain nt c3 where N: "lex h ops strs vals c2 = Inr (nt, c3)"
      and R2: "(case nt of
                   OpTok (FnOp a b) raw \<Rightarrow>
                     if raw = a then
                       bindE (advance h ops strs vals c3) (\<lambda>cur.
                       bindE (lex h ops strs vals cur) (\<lambda>(nextTok, cur).
                         parseArgs h ops strs vals n b v [] nextTok cur))
                     else Some (Inr (Lit v, c3))
                 | _ \<Rightarrow> Some (Inr (Lit v, c3))) = Some (Inr (t, c))"
      by (auto simp: bindE_Inr)
    show ?thesis
    proof (cases "t = Lit v")
      case True
      with V show ?thesis by simp
    next
      case False
      with R2 obtain b nt2 c5 where "parseArgs h ops strs vals n b v [] nt2 c5 = Some (Inr (t, c))"
        by (auto simp: bindE_Inr split: Tok.splits OpSpec.splits if_splits)
      from parserOk_argsD[OF IH this V] show ?thesis by simp
    qed
  qed
qed

lemma ok_tier:
  assumes IH: "parserOk h ops strs vals n"
    and P: "parseLevel h ops strs vals (Suc n) (Suc i) cur = Some (Inr (t, c))"
  shows "Undefined \<notin> set (literals t)"
proof -
  from P have i: "i < length ops" by (auto split: if_splits)
  with P obtain left c1 tok c2 where
    L: "parseLevel h ops strs vals n i cur = Some (Inr (left, c1))"
    and R: "(case tok of
            LitTok v \<Rightarrow>
              if v = Undefined then bindE (advance h ops strs vals c2) (\<lambda>cur. Some (Inr (left, cur)))
              else throw ''Syntax error: expected operator''
          | OpTok sp raw \<Rightarrow> parseChain h ops strs vals n i left [] tok c2) = Some (Inr (t, c))"
    by (auto simp: bindE_Inr bindP_Inr)
  note okl = parserOk_levelD[OF IH L]
  show ?thesis
  proof (cases tok)
    case (LitTok v)
    with R have "t = left" by (auto simp: bindE_Inr throw_not_Inr split: if_splits)
    with okl show ?thesis by simp
  next
    case (OpTok sp raw)
    with R have "parseChain h ops strs vals n i left [] tok c2 = Some (Inr (t, c))" by simp
    from parserOk_chainD[OF IH this okl] show ?thesis by simp
  qed
qed

lemma ok_args:
  assumes IH: "parserOk h ops strs vals n"
    and P: "parseArgs h ops strs vals (Suc n) closing v args tok cur = Some (Inr (t, c))"
    and V: "v \<noteq> Undefined" and A: "\<forall>a\<in>set args. Undefined \<notin> set (literals a)"
  shows "Undefined \<notin> set (literals t)"
proof (cases "closes tok closing")
  case (Some sp)
  with P have "t = CallNode sp v args" by simp
  with V A show ?thesis by auto
next
  case None
  with P obtain arg c1 nt c2 where
    L: "parseLevel h ops strs vals n (length ops) cur = Some (Inr (arg, c1))"
    and R: "(case nt of
              OpTok sp raw \<Rightarrow>
                if raw = '','' then
                  bindE (advance h ops strs vals c2) (\<lambda>cur.
                  bindE (lex h ops strs vals cur) (\<lambda>(nextTok, cur).
                    parseArgs h ops strs vals n closing v (args @ [arg]) nextTok cur))
                else if raw \<noteq> closing \<and> \<not> isUn sp \<and> raw \<noteq> ''('' then
                  throw (''Syntax error: expected either '' @ sq @ '','' @ sq @ '' or '' @ sq @ closing @ sq
                           @ '', got '' @ sq @ raw @ sq)
                else if raw = closing then Some (Inr (CallNode sp v (args @ [arg]), c2))
                else parseArgs h ops strs vals n closing v (args @ [arg]) nt c2
            | LitTok v \<Rightarrow> throw (''Syntax error: expected '' @ sq @ closing @ sq)) = Some (Inr (t, c))"
    by (auto simp: bindE_Inr bindP_Inr)
  from parserOk_levelD[OF IH L] A have A': "\<forall>a\<in>set (args @ [arg]). Undefined \<notin> set (literals a)"
    by simp
  show ?thesis
  proof (cases "\<exists>sp. t = CallNode sp v (args @ [arg])")
    case True
    with V A' show ?thesis by auto
  next
    case False
    with R obtain nt' c' where "parseArgs h ops strs vals n closing v (args @ [arg]) nt' c' = Some (Inr (t, c))"
      by (auto simp: bindE_Inr throw_not_Inr split: Tok.splits if_splits)
    from parserOk_argsD[OF IH this V A'] show ?thesis .
  qed
qed

lemma ok_chain:
  assumes IH: "parserOk h ops strs vals n"
    and P: "parseChain h ops strs vals (Suc n) i left clauses tok cur = Some (Inr (t, c))"
    and L: "Undefined \<notin> set (literals left)" and C: "\<forall>(sp, r)\<in>set clauses. Undefined \<notin> set (literals r)"
  shows "Undefined \<notin> set (literals t)"
proof (cases "t = foldClauses left clauses")
  case True
  with L C show ?thesis by (auto simp: literals_foldClauses)
next
  case False
  with P obtain sp raw where T: "tok = OpTok sp raw" "tierHas (ops ! i) raw"
    by (cases tok) (auto split: if_splits)
  with P obtain c1 right c2 nt c3 where
    R: "parseLevel h ops strs vals n i c1 = Some (Inr (right, c2))"
    and Q: "parseChain h ops strs vals n i left (clauses @ [(sp, right)]) nt c3 = Some (Inr (t, c))"
    by (auto simp: bindE_Inr bindP_Inr)
  from parserOk_levelD[OF IH R] C have "\<forall>(sp, r)\<in>set (clauses @ [(sp, right)]). Undefined \<notin> set (literals r)"
    by auto
  from parserOk_chainD[OF IH Q L this] show ?thesis .
qed

lemma parserOk_all: "parserOk h ops strs vals n"
proof (induction n)
  case 0
  show ?case by (simp add: parserOk_def)
next
  case (Suc n)
  have "parseLevel h ops strs vals (Suc n) lvl cur = Some (Inr (t, c)) \<Longrightarrow> Undefined \<notin> set (literals t)"
    for lvl cur t c
    using ok_primary[OF Suc] ok_tier[OF Suc] by (cases lvl) blast+
  with ok_args[OF Suc] ok_chain[OF Suc] show ?case
    unfolding parserOk_def by blast
qed

lemma lex_end_of_input:
  "length strs \<le> si \<Longrightarrow> lex h ops strs vals (si, ci) = Inr (LitTok Undefined, (si, ci))"
  by (simp add: lex_def)

lemma lex_end_of_fragment:
  "si < length strs \<Longrightarrow> length (strs ! si) \<le> skipSpace (strs ! si) ci
     \<Longrightarrow> lex h ops strs vals (si, ci) = Inr (LitTok (hole vals si), (si, skipSpace (strs ! si) ci))"
  by (simp add: lex_def Let_def)

lemma lex_Undefined_position:
  assumes "lex h ops strs vals cur = Inr (LitTok Undefined, (si, ci))"
  shows "length strs \<le> si \<or> length (strs ! si) \<le> ci"
proof -
  obtain si0 ci0 where c: "cur = (si0, ci0)" by (cases cur)
  show ?thesis
  proof (cases "length strs \<le> si0")
    case True
    with assms c show ?thesis by (simp add: lex_def)
  next
    case False
    show ?thesis
    proof (cases "drop (skipSpace (strs ! si0) ci0) (strs ! si0) = []")
      case True
      with assms c False show ?thesis by (auto simp: lex_def Let_def)
    next
      case ne: False
      with assms c False have False
        by (auto simp: lex_def Let_def split: option.splits if_splits)
      then show ?thesis ..
    qed
  qed
qed

lemma advance_at_Undefined:
  assumes "lex h ops strs vals cur = Inr (LitTok Undefined, c1)"
  shows "\<exists>c2. advance h ops strs vals c1 = Inr c2"
proof -
  obtain si ci where c: "c1 = (si, ci)" by (cases c1)
  from lex_Undefined_position[OF assms[unfolded c]] show ?thesis
    unfolding c by (auto simp: advance_def)
qed

lemma primary_Undefined:
  assumes "lex h ops strs vals cur = Inr (LitTok Undefined, c1)"
  shows "parseLevel h ops strs vals (Suc n) 0 cur = Some (Inl (Error ''Syntax error: expected value''))"
proof -
  from advance_at_Undefined[OF assms] obtain c2 where "advance h ops strs vals c1 = Inr c2" by blast
  with assms show ?thesis by (simp add: bindE_def throw_def)
qed

lemma operand_Undefined:
  assumes "lex h ops strs vals cur = Inr (LitTok Undefined, c1)" and "lvl \<le> length ops"
  shows "parseLevel h ops strs vals (Suc (lvl + k)) lvl cur = Some (Inl (Error ''Syntax error: expected value''))"
  using assms(2)
proof (induction lvl)
  case 0
  show ?case using primary_Undefined[OF assms(1)] by simp
next
  case (Suc lvl)
  then have "parseLevel h ops strs vals (Suc (lvl + k)) lvl cur = Some (Inl (Error ''Syntax error: expected value''))"
    by simp
  with Suc.prems show ?case by (simp add: bindP_def)
qed

lemma tier_Undefined:
  assumes "i < length ops" and "parseLevel h ops strs vals n i cur = Some (Inr (left, c1))"
    and "lex h ops strs vals c1 = Inr (LitTok Undefined, c2)"
  shows "\<exists>c3. parseLevel h ops strs vals (Suc n) (Suc i) cur = Some (Inr (left, c3))"
proof -
  from advance_at_Undefined[OF assms(3)] obtain c3 where "advance h ops strs vals c2 = Inr c3" by blast
  with assms show ?thesis by (simp add: bindE_def bindP_def)
qed

lemma skipSpace_blank: "\<forall>c\<in>set s. isSpace c \<Longrightarrow> skipSpace s 0 = length s"
proof -
  assume "\<forall>c\<in>set s. isSpace c"
  then have "takeWhile isSpace s = s" by (simp add: takeWhile_eq_all_conv)
  then have "length (takeWhile isSpace (drop 0 s)) = length s" by (simp only: drop_0)
  then show ?thesis by (simp only: skipSpace_def add_0)
qed

lemma single_hole:
  assumes "\<forall>c\<in>set s0. isSpace c"
  shows "op h ops (Suc (length ops + k)) (s0 # rest) (Undefined # others) = Some (Inl (Error ''Syntax error: expected value''))"
proof -
  have "lex h ops (s0 # rest) (Undefined # others) (0, 0) = Inr (LitTok Undefined, (0, length s0))"
    using lex_end_of_fragment[of 0 "s0 # rest" 0 h ops "Undefined # others"] skipSpace_blank[OF assms]
    by (simp add: hole_def)
  from operand_Undefined[OF this, of "length ops" k] show ?thesis
    by (simp add: op_def bindP_def)
qed

section \<open>Running the parser on the default table\<close>

lemma fuel_step: "(numeral n :: nat) + k = Suc (pred_numeral n + k)"
  by (simp add: numeral_eq_Suc)

lemma bindE_simps: "bindE (Inr x) k = k x" "bindE (Inl e) k = Some (Inl e)"
  by (simp_all add: bindE_def)

lemma bindP_simps: "bindP None k' = None" "bindP (Some (Inl e)) k' = Some (Inl e)" "bindP (Some (Inr x)) k' = k' x"
  by (simp_all add: bindP_def)

lemma bindE_weak_cong: "r = r' \<Longrightarrow> bindE r k = bindE r' k"
  by simp

lemma bindP_weak_cong: "r = r' \<Longrightarrow> bindP r k = bindP r' k"
  by simp

lemmas parse_eval = bindE_simps bindP_simps throw_def lex_eval unarySpec_def tierHas_def defaultOps_def fuel_step

lemmas eval_eval = bindR_def evalLit_def

lemma parse_sub:
  "A \<noteq> Undefined \<Longrightarrow> B \<noteq> Undefined \<Longrightarrow> C \<noteq> Undefined \<Longrightarrow>
   parseLevel h defaultOps [[], '' - '', '' - '', []] [A, B, C] (20 + k) (length defaultOps) (0, 0)
     = Some (Inr (BinNode (BinOp ''-'') (BinNode (BinOp ''-'') (Lit A) (Lit B)) (Lit C), (4, 0)))"
  by (simp add: parse_eval cong: bindE_weak_cong bindP_weak_cong)

lemma parse_sub_grouped:
  "A \<noteq> Undefined \<Longrightarrow> B \<noteq> Undefined \<Longrightarrow> C \<noteq> Undefined \<Longrightarrow>
   parseLevel h defaultOps [''('', '' - '', '') - '', []] [A, B, C] (20 + k) (length defaultOps) (0, 0)
     = Some (Inr (BinNode (BinOp ''-'') (BinNode (BinOp ''-'') (Lit A) (Lit B)) (Lit C), (4, 0)))"
  by (simp add: parse_eval cong: bindE_weak_cong bindP_weak_cong)

lemma parse_unary:
  "A \<noteq> Undefined \<Longrightarrow> B \<noteq> Undefined \<Longrightarrow>
   parseLevel h defaultOps [[], '' - -'', []] [A, B] (20 + k) (length defaultOps) (0, 0)
     = Some (Inr (BinNode (BinOp ''-'') (Lit A) (UnNode (UnOp ''-'') (Lit B)), (3, 0)))"
  by (simp add: parse_eval cong: bindE_weak_cong bindP_weak_cong)

lemma parse_index:
  "M \<noteq> Undefined \<Longrightarrow> i \<noteq> Undefined \<Longrightarrow> j \<noteq> Undefined \<Longrightarrow>
   parseLevel h defaultOps [[], ''['', '', '', '']''] [M, i, j] (20 + k) (length defaultOps) (0, 0)
     = Some (Inr (CallNode (FnOp ''['' '']'') M [Lit i, Lit j], (3, 0)))"
  by (simp add: parse_eval cong: bindE_weak_cong bindP_weak_cong)

lemma parse_call:
  "F \<noteq> Undefined \<Longrightarrow>
   parseLevel h defaultOps [[], ''()''] [F] (20 + k) (length defaultOps) (0, 0)
     = Some (Inr (CallNode (FnOp ''('' '')'') F [], (1, 1)))"
  by (simp add: parse_eval cong: bindE_weak_cong bindP_weak_cong)

lemma parse_no_separator:
  "M \<noteq> Undefined \<Longrightarrow> i \<noteq> Undefined \<Longrightarrow> j \<noteq> Undefined \<Longrightarrow>
   parseLevel h defaultOps [[], ''[('', '') ('', '')]''] [M, i, j] (20 + k) (length defaultOps) (0, 0)
     = Some (Inr (CallNode (FnOp ''['' '']'') M [Lit i, Lit j], (3, 1)))"
  by (simp add: parse_eval cong: bindE_weak_cong bindP_weak_cong)

lemma parse_index_tail:
  "M \<noteq> Undefined \<Longrightarrow> i \<noteq> Undefined \<Longrightarrow>
   parseLevel h defaultOps [[], ''['', ''] + '', []] [M, i, X] (20 + k) (length defaultOps) (0, 0)
     = Some (Inr (CallNode (FnOp ''['' '']'') M [Lit i], (2, 0)))"
  by (simp add: parse_eval cong: bindE_weak_cong bindP_weak_cong)

lemma parse_index_alone:
  "M \<noteq> Undefined \<Longrightarrow> i \<noteq> Undefined \<Longrightarrow>
   parseLevel h defaultOps [[], ''['', '']''] [M, i] (20 + k) (length defaultOps) (0, 0)
     = Some (Inr (CallNode (FnOp ''['' '']'') M [Lit i], (2, 0)))"
  by (simp add: parse_eval cong: bindE_weak_cong bindP_weak_cong)

lemma parse_stray_paren:
  "A \<noteq> Undefined \<Longrightarrow>
   parseLevel h defaultOps [[], '' ) + '', []] [A, B] (20 + k) (length defaultOps) (0, 0)
     = Some (Inr (Lit A, (1, 1)))"
  by (simp add: parse_eval cong: bindE_weak_cong bindP_weak_cong)

lemma parse_unary_null:
  "parseLevel h defaultOps [''-'', []] [Null] (20 + k) (length defaultOps) (0, 0)
     = Some (Inr (UnNode (UnOp ''-'') (Lit Null), (2, 0)))"
  by (simp add: parse_eval cong: bindE_weak_cong bindP_weak_cong)

lemma lex_tail: "lex h defaultOps [[], ''['', ''] + '', []] [M, i, X] (2, 0) = Inr (OpTok (FnOp ''['' '']'') '']'', (2, 0))"
  by (simp add: lex_eval defaultOps_def)

lemma lex_stray: "lex h defaultOps [[], '' ) + '', []] [A, B] (1, 1) = Inr (OpTok (FnOp ''('' '')'') '')'', (1, 1))"
  by (simp add: lex_eval defaultOps_def)

lemma showNat_1: "showNat (Suc 0) = ''1''" by (simp add: showNat.simps[of "Suc 0"])
lemma showNat_2: "showNat 2 = ''2''" by (simp add: showNat.simps[of 2])

lemma parse_no_separator_text:
  "parseLevel exampleHost defaultOps [[], ''[(1) (2)]''] [Obj 4] (20 + k) (length defaultOps) (0, 0)
     = Some (Inr (CallNode (FnOp ''['' '']'') (Obj 4) [Lit (Num 1), Lit (Num 2)], (1, 8)))"
  by (simp add: parse_eval exampleHost_def natOfDigits_def digitVal_def showNat_1 showNat_2
      cong: bindE_weak_cong bindP_weak_cong)

lemma parse_first_arg:
  "parseLevel exampleHost defaultOps [[], ''[(1) (2)]''] [Obj 4] (20 + k) (length defaultOps) (1, 1)
     = Some (Inr (Lit (Num 1), (1, 5)))"
  by (simp add: parse_eval exampleHost_def natOfDigits_def digitVal_def showNat_1 showNat_2
      cong: bindE_weak_cong bindP_weak_cong)

lemma lex_after_first_arg:
  "lex exampleHost defaultOps [[], ''[(1) (2)]''] [Obj 4] (1, 5) = Inr (OpTok (FnOp ''('' '')'') ''('', (1, 5))"
  by (simp add: lex_eval defaultOps_def)

lemma parse_mul_div:
  "A \<noteq> Undefined \<Longrightarrow> B \<noteq> Undefined \<Longrightarrow> C \<noteq> Undefined \<Longrightarrow>
   parseLevel h defaultOps [[], '' * '', '' / '', []] [A, B, C] (20 + k) (length defaultOps) (0, 0)
     = Some (Inr (BinNode (BinOp ''/'') (BinNode (BinOp ''*'') (Lit A) (Lit B)) (Lit C), (4, 0)))"
  by (simp add: parse_eval cong: bindE_weak_cong bindP_weak_cong)

lemma parse_add_sub:
  "A \<noteq> Undefined \<Longrightarrow> B \<noteq> Undefined \<Longrightarrow> C \<noteq> Undefined \<Longrightarrow>
   parseLevel h defaultOps [[], '' - '', '' + '', []] [A, B, C] (20 + k) (length defaultOps) (0, 0)
     = Some (Inr (BinNode (BinOp ''+'') (BinNode (BinOp ''-'') (Lit A) (Lit B)) (Lit C), (4, 0)))"
  by (simp add: parse_eval cong: bindE_weak_cong bindP_weak_cong)

lemma parse_eq_ne:
  "A \<noteq> Undefined \<Longrightarrow> B \<noteq> Undefined \<Longrightarrow> C \<noteq> Undefined \<Longrightarrow>
   parseLevel h defaultOps [[], '' == '', '' != '', []] [A, B, C] (20 + k) (length defaultOps) (0, 0)
     = Some (Inr (BinNode (BinOp ''!='') (BinNode (BinOp ''=='') (Lit A) (Lit B)) (Lit C), (4, 0)))"
  by (simp add: parse_eval cong: bindE_weak_cong bindP_weak_cong)

lemma parse_mixed:
  "A \<noteq> Undefined \<Longrightarrow> B \<noteq> Undefined \<Longrightarrow> C \<noteq> Undefined \<Longrightarrow> D \<noteq> Undefined \<Longrightarrow>
   parseLevel h defaultOps [[], '' - '', '' * '', '' - '', []] [A, B, C, D] (20 + k) (length defaultOps) (0, 0)
     = Some (Inr (BinNode (BinOp ''-'') (BinNode (BinOp ''-'') (Lit A) (BinNode (BinOp ''*'') (Lit B) (Lit C))) (Lit D),
                  (5, 0)))"
  by (simp add: parse_eval cong: bindE_weak_cong bindP_weak_cong)

lemma showNat_digit: "n < 10 \<Longrightarrow> showNat n = [''0123456789'' ! n]"
  by (simp add: showNat.simps[of n])

lemma showNat_digits: "showNat 8 = ''8''" "showNat 4 = ''4''" "showNat 7 = ''7''"
  by (simp_all add: showNat_digit)

lemma parse_div_text:
  "parseLevel exampleHost defaultOps [''8 / 4 / 2''] [] (20 + k) (length defaultOps) (0, 0)
     = Some (Inr (BinNode (BinOp ''/'') (BinNode (BinOp ''/'') (Lit (Num 8)) (Lit (Num 4))) (Lit (Num 2)), (1, 0)))"
  by (simp add: parse_eval exampleHost_def natOfDigits_def digitVal_def showNat_digits showNat_2
      cong: bindE_weak_cong bindP_weak_cong)

lemma parse_sub_text:
  "parseLevel exampleHost defaultOps [''7 - 2 - 1''] [] (20 + k) (length defaultOps) (0, 0)
     = Some (Inr (BinNode (BinOp ''-'') (BinNode (BinOp ''-'') (Lit (Num 7)) (Lit (Num 2))) (Lit (Num 1)), (1, 0)))"
  by (simp add: parse_eval exampleHost_def natOfDigits_def digitVal_def showNat_digits showNat_2 showNat_1
      cong: bindE_weak_cong bindP_weak_cong)

lemma eval_div_text:
  "evalOps exampleHost (BinNode (BinOp ''/'') (BinNode (BinOp ''/'') (Lit (Num 8)) (Lit (Num 4))) (Lit (Num 2)))
     = Inr (Num 1)"
  by (simp add: eval_eval evalBin_def exampleHost_def)

lemma eval_sub_text:
  "evalOps exampleHost (BinNode (BinOp ''-'') (BinNode (BinOp ''-'') (Lit (Num 7)) (Lit (Num 2))) (Lit (Num 1)))
     = Inr (Num 4)"
  by (simp add: eval_eval evalBin_def exampleHost_def)

lemma eval_div_right:
  "evalOps exampleHost (BinNode (BinOp ''/'') (Lit (Num 8)) (BinNode (BinOp ''/'') (Lit (Num 4)) (Lit (Num 2))))
     = Inr (Num 4)"
  by (simp add: eval_eval evalBin_def exampleHost_def)

lemma primary_text:
  "parseLevel exampleHost defaultOps [''8 / 4 / 2''] [] (10 + k) 0 (0, 0) = Some (Inr (Lit (Num 8), (0, 2)))"
  by (simp add: parse_eval exampleHost_def natOfDigits_def digitVal_def showNat_digits showNat_2
      cong: bindE_weak_cong bindP_weak_cong)

lemma lex_text:
  "lex exampleHost defaultOps [''8 / 4 / 2''] [] (0, 2) = Inr (OpTok (BinOp ''/'') ''/'', (0, 2))"
  by (simp add: lex_eval defaultOps_def)

lemma recorded_text:
  "recorded exampleHost defaultOps [''8 / 4 / 2''] [] (10 + k) 0 (OpTok (BinOp ''/'') ''/'') (0, 2)
     [(BinOp ''/'', Lit (Num 4)), (BinOp ''/'', Lit (Num 2))] (0, 9)"
  by (simp add: parse_eval exampleHost_def natOfDigits_def digitVal_def showNat_digits showNat_2
      cong: bindE_weak_cong bindP_weak_cong)


section \<open>Left association, unary operators\<close>

lemma op_of_parse:
  "parseLevel h ops strs vals fuel (length ops) (0, 0) = Some (Inr (tree, cur))
     \<Longrightarrow> op h ops fuel strs vals = Some (evalOps h tree)"
  by (simp add: op_def bindP_def)

lemma evalUn_exposed:
  "inst h r (''operator'' @ symb) = Some f \<Longrightarrow> evalUn h symb (Obj r) = call f []"
  by (simp add: evalUn_def)

lemma evalUn_not_exposed:
  assumes "v \<noteq> Null" and "\<forall>r. v = Obj r \<longrightarrow> inst h r (''operator'' @ symb) = None"
  shows "\<exists>d. toErrorDisplay h v = Inr d
           \<and> evalUn h symb v = Inl (Error (''Operator error: operator'' @ symb @ '' is not a callable on '' @ d))"
  using assms by (cases v) (simp_all add: evalUn_def operr1_def)

lemma evalUn_Null: "evalUn h symb Null = Inl TypeError"
  by (simp add: evalUn_def)

lemma unarySpec_iff:
  "unarySpec ops sp raw = Some u \<longleftrightarrow>
     (isUn sp \<and> u = sp) \<or> (\<not> isUn sp \<and> UnOp raw \<in> set (concat ops) \<and> u = UnOp raw)"
proof (cases "isUn sp")
  case True
  then show ?thesis by (auto simp: unarySpec_def)
next
  case False
  have "find (\<lambda>op. op = UnOp raw) xs = Some u \<longleftrightarrow> UnOp raw \<in> set xs \<and> u = UnOp raw" for xs
    by (induction xs) auto
  with False show ?thesis by (simp add: unarySpec_def del: set_concat)
qed

lemma primary_unary:
  assumes "lex h ops strs vals cur = Inr (OpTok sp raw, c1)" and "raw \<noteq> ''(''"
    and "unarySpec ops sp raw = Some u" and "advance h ops strs vals c1 = Inr c2"
  shows "parseLevel h ops strs vals (Suc n) 0 cur =
           bindP (parseLevel h ops strs vals n (length ops) c2) (\<lambda>(expr, c). Some (Inr (UnNode u expr, c)))"
  using assms by (simp add: bindE_def)

lemma advance_op:
  assumes "lex h ops strs vals cur = Inr (OpTok sp raw, (si, ci))"
  shows "advance h ops strs vals (si, ci) = Inr (si, ci + length raw)"
proof -
  have si: "si < length strs"
  proof (rule ccontr)
    assume "\<not> si < length strs"
    with lex_idem[OF assms] show False by (simp add: lex_def)
  qed
  have "\<not> length (strs ! si) \<le> ci"
  proof
    assume "length (strs ! si) \<le> ci"
    then have "skipSpace (strs ! si) ci = ci" by (simp add: skipSpace_def)
    with \<open>length (strs ! si) \<le> ci\<close> si lex_idem[OF assms] show False
      by (simp add: lex_def Let_def)
  qed
  with advance_after_lex[OF assms si] show ?thesis by simp
qed

lemma evalOps_sub:
  "A \<noteq> Null \<Longrightarrow> B \<noteq> Null \<Longrightarrow> C \<noteq> Null \<Longrightarrow>
   evalOps h (BinNode (BinOp ''-'') (BinNode (BinOp ''-'') (Lit A) (Lit B)) (Lit C)) =
     bindR (evalBin h ''-'' A B) (\<lambda>ab. evalBin h ''-'' ab C)"
  by (simp add: eval_eval)

lemma op_div_text: "op exampleHost defaultOps (20 + k) [''8 / 4 / 2''] [] = Some (Inr (Num 1))"
  using op_of_parse[OF parse_div_text[of k]] by (simp only: eval_div_text)

lemma op_sub_text: "op exampleHost defaultOps (20 + k) [''7 - 2 - 1''] [] = Some (Inr (Num 4))"
  using op_of_parse[OF parse_sub_text[of k]] by (simp only: eval_sub_text)

text \<open>
  C6. The folding loop of a tier is a left fold: two recorded pairs give
  \<open>((left op1 r1) op2 r2)\<close>. At every tier level of every table the loop after the
  first operand returns exactly when the input holds a chain of operators of the tier
  with the operands that the level below returns after them, and its tree is the left
  fold of that chain over the first operand; the chain and the cursor where it ends are
  determined by the input. So a tier level whose operand is followed by such a chain
  returns the left fold, and whatever a tier level returns is its operand (before an
  \<open>undefined\<close> literal) or the left fold of the chain recorded after it. With the
  default table \<open>A * B / C\<close>, \<open>A - B + C\<close> and \<open>A == B != C\<close> parse to the left-nested
  tree, a product inside a chain of differences is one operand of that chain, and
  \<open>A - B - C\<close> and \<open>(A - B) - C\<close> parse to the same tree, so they evaluate alike,
  whatever the three values expose; the value is the second \<open>operator-\<close> applied to the
  result of the first. On numbers \<open>8 / 4 / 2\<close> is 1 and \<open>7 - 2 - 1\<close> is 4.
\<close>

theorem tier_chain_left_assoc:
  "foldClauses left clauses = foldl (\<lambda>acc (sp, right). BinNode sp acc right) left clauses
   \<and> foldClauses left [(op1, r1), (op2, r2)] = BinNode op2 (BinNode op1 left r1) r2
   \<and> (parseChain h ops strs vals n i left [] tok c2 = Some (Inr (t, fin)) \<longleftrightarrow>
        (\<exists>chain. recorded h ops strs vals n i tok c2 chain fin
           \<and> t = foldl (\<lambda>acc (sp, right). BinNode sp acc right) left chain))
   \<and> (i < length ops
        \<and> parseLevel h ops strs vals n i cur = Some (Inr (operand, c1))
        \<and> lex h ops strs vals c1 = Inr (OpTok sp raw, c2)
        \<and> recorded h ops strs vals n i (OpTok sp raw) c2 chain fin \<longrightarrow>
      parseLevel h ops strs vals (Suc n) (Suc i) cur =
        Some (Inr (foldl (\<lambda>acc (sp, right). BinNode sp acc right) operand chain, fin)))
   \<and> (parseLevel h ops strs vals (Suc n) (Suc i) cur = Some (Inr (t, fin)) \<longrightarrow>
        (\<exists>operand c1 tok c2.
           parseLevel h ops strs vals n i cur = Some (Inr (operand, c1))
           \<and> lex h ops strs vals c1 = Inr (tok, c2)
           \<and> (if tok = LitTok Undefined then t = operand \<and> advance h ops strs vals c2 = Inr fin
              else \<exists>chain. recorded h ops strs vals n i tok c2 chain fin
                     \<and> t = foldl (\<lambda>acc (sp, right). BinNode sp acc right) operand chain)))
   \<and> (recorded h ops strs vals n i tok c2 chain fin \<and> recorded h ops strs vals n i tok c2 chain' fin' \<longrightarrow>
        chain = chain' \<and> fin = fin')
   \<and> (A \<noteq> Undefined \<and> B \<noteq> Undefined \<and> C \<noteq> Undefined \<longrightarrow>
        op h defaultOps (20 + k) [[], '' - '', '' - '', []] [A, B, C] =
          Some (evalOps h (BinNode (BinOp ''-'') (BinNode (BinOp ''-'') (Lit A) (Lit B)) (Lit C)))
        \<and> op h defaultOps (20 + k) [''('', '' - '', '') - '', []] [A, B, C] =
            op h defaultOps (20 + k) [[], '' - '', '' - '', []] [A, B, C]
        \<and> parseLevel h defaultOps [[], '' * '', '' / '', []] [A, B, C] (20 + k) (length defaultOps) (0, 0)
            = Some (Inr (BinNode (BinOp ''/'') (BinNode (BinOp ''*'') (Lit A) (Lit B)) (Lit C), (4, 0)))
        \<and> parseLevel h defaultOps [[], '' - '', '' + '', []] [A, B, C] (20 + k) (length defaultOps) (0, 0)
            = Some (Inr (BinNode (BinOp ''+'') (BinNode (BinOp ''-'') (Lit A) (Lit B)) (Lit C), (4, 0)))
        \<and> parseLevel h defaultOps [[], '' == '', '' != '', []] [A, B, C] (20 + k) (length defaultOps) (0, 0)
            = Some (Inr (BinNode (BinOp ''!='') (BinNode (BinOp ''=='') (Lit A) (Lit B)) (Lit C), (4, 0))))
   \<and> (A \<noteq> Undefined \<and> B \<noteq> Undefined \<and> C \<noteq> Undefined \<and> D \<noteq> Undefined \<longrightarrow>
        parseLevel h defaultOps [[], '' - '', '' * '', '' - '', []] [A, B, C, D] (20 + k) (length defaultOps) (0, 0)
          = Some (Inr (BinNode (BinOp ''-'')
                         (BinNode (BinOp ''-'') (Lit A) (BinNode (BinOp ''*'') (Lit B) (Lit C))) (Lit D),
                       (5, 0))))
   \<and> (A \<noteq> Null \<and> B \<noteq> Null \<and> C \<noteq> Null \<longrightarrow>
        evalOps h (BinNode (BinOp ''-'') (BinNode (BinOp ''-'') (Lit A) (Lit B)) (Lit C)) =
          bindR (evalBin h ''-'' A B) (\<lambda>ab. evalBin h ''-'' ab C))
   \<and> op exampleHost defaultOps (20 + k) [''8 / 4 / 2''] [] = Some (Inr (Num 1))
   \<and> op exampleHost defaultOps (20 + k) [''7 - 2 - 1''] [] = Some (Inr (Num 4))"
proof (intro conjI)
  show "foldClauses left clauses = foldl (\<lambda>acc (sp, right). BinNode sp acc right) left clauses"
    by (rule foldClauses_foldl)
  show "foldClauses left [(op1, r1), (op2, r2)] = BinNode op2 (BinNode op1 left r1) r2"
    by simp
  show "parseChain h ops strs vals n i left [] tok c2 = Some (Inr (t, fin)) \<longleftrightarrow>
        (\<exists>chain. recorded h ops strs vals n i tok c2 chain fin
           \<and> t = foldl (\<lambda>acc (sp, right). BinNode sp acc right) left chain)"
    unfolding parseChain_recorded by (simp add: foldClauses_foldl)
  show "i < length ops
        \<and> parseLevel h ops strs vals n i cur = Some (Inr (operand, c1))
        \<and> lex h ops strs vals c1 = Inr (OpTok sp raw, c2)
        \<and> recorded h ops strs vals n i (OpTok sp raw) c2 chain fin \<longrightarrow>
      parseLevel h ops strs vals (Suc n) (Suc i) cur =
        Some (Inr (foldl (\<lambda>acc (sp, right). BinNode sp acc right) operand chain, fin))"
    using tier_recorded[of i ops h strs vals n cur operand c1 sp raw c2 chain fin] by blast
  show "parseLevel h ops strs vals (Suc n) (Suc i) cur = Some (Inr (t, fin)) \<longrightarrow>
        (\<exists>operand c1 tok c2.
           parseLevel h ops strs vals n i cur = Some (Inr (operand, c1))
           \<and> lex h ops strs vals c1 = Inr (tok, c2)
           \<and> (if tok = LitTok Undefined then t = operand \<and> advance h ops strs vals c2 = Inr fin
              else \<exists>chain. recorded h ops strs vals n i tok c2 chain fin
                     \<and> t = foldl (\<lambda>acc (sp, right). BinNode sp acc right) operand chain))"
    using tier_returns[of h ops strs vals n i cur t fin] by (intro impI)
  show "recorded h ops strs vals n i tok c2 chain fin \<and> recorded h ops strs vals n i tok c2 chain' fin' \<longrightarrow>
        chain = chain' \<and> fin = fin'"
    using recorded_unique[of h ops strs vals n i tok c2 chain fin chain' fin'] by blast
  show "A \<noteq> Undefined \<and> B \<noteq> Undefined \<and> C \<noteq> Undefined \<longrightarrow>
        op h defaultOps (20 + k) [[], '' - '', '' - '', []] [A, B, C] =
          Some (evalOps h (BinNode (BinOp ''-'') (BinNode (BinOp ''-'') (Lit A) (Lit B)) (Lit C)))
        \<and> op h defaultOps (20 + k) [''('', '' - '', '') - '', []] [A, B, C] =
            op h defaultOps (20 + k) [[], '' - '', '' - '', []] [A, B, C]
        \<and> parseLevel h defaultOps [[], '' * '', '' / '', []] [A, B, C] (20 + k) (length defaultOps) (0, 0)
            = Some (Inr (BinNode (BinOp ''/'') (BinNode (BinOp ''*'') (Lit A) (Lit B)) (Lit C), (4, 0)))
        \<and> parseLevel h defaultOps [[], '' - '', '' + '', []] [A, B, C] (20 + k) (length defaultOps) (0, 0)
            = Some (Inr (BinNode (BinOp ''+'') (BinNode (BinOp ''-'') (Lit A) (Lit B)) (Lit C), (4, 0)))
        \<and> parseLevel h defaultOps [[], '' == '', '' != '', []] [A, B, C] (20 + k) (length defaultOps) (0, 0)
            = Some (Inr (BinNode (BinOp ''!='') (BinNode (BinOp ''=='') (Lit A) (Lit B)) (Lit C), (4, 0)))"
    using op_of_parse[OF parse_sub[of A B C h k]] op_of_parse[OF parse_sub_grouped[of A B C h k]]
      parse_mul_div[of A B C h k] parse_add_sub[of A B C h k] parse_eq_ne[of A B C h k]
    by simp
  show "A \<noteq> Undefined \<and> B \<noteq> Undefined \<and> C \<noteq> Undefined \<and> D \<noteq> Undefined \<longrightarrow>
        parseLevel h defaultOps [[], '' - '', '' * '', '' - '', []] [A, B, C, D] (20 + k) (length defaultOps) (0, 0)
          = Some (Inr (BinNode (BinOp ''-'')
                         (BinNode (BinOp ''-'') (Lit A) (BinNode (BinOp ''*'') (Lit B) (Lit C))) (Lit D),
                       (5, 0)))"
    using parse_mixed[of A B C D h k] by simp
  show "A \<noteq> Null \<and> B \<noteq> Null \<and> C \<noteq> Null \<longrightarrow>
        evalOps h (BinNode (BinOp ''-'') (BinNode (BinOp ''-'') (Lit A) (Lit B)) (Lit C)) =
          bindR (evalBin h ''-'' A B) (\<lambda>ab. evalBin h ''-'' ab C)"
    using evalOps_sub[of A B C h] by simp
  show "op exampleHost defaultOps (20 + k) [''8 / 4 / 2''] [] = Some (Inr (Num 1))"
    by (rule op_div_text)
  show "op exampleHost defaultOps (20 + k) [''7 - 2 - 1''] [] = Some (Inr (Num 4))"
    by (rule op_sub_text)
qed

theorem tier_chain_left_assoc_witness:
  "parseLevel exampleHost defaultOps [''8 / 4 / 2''] [] 11 1 (0, 0) =
     Some (Inr (BinNode (BinOp ''/'') (BinNode (BinOp ''/'') (Lit (Num 8)) (Lit (Num 4))) (Lit (Num 2)), (0, 9)))
   \<and> evalOps exampleHost (BinNode (BinOp ''/'') (BinNode (BinOp ''/'') (Lit (Num 8)) (Lit (Num 4))) (Lit (Num 2)))
       = Inr (Num 1)
   \<and> evalOps exampleHost (BinNode (BinOp ''/'') (Lit (Num 8)) (BinNode (BinOp ''/'') (Lit (Num 4)) (Lit (Num 2))))
       = Inr (Num 4)
   \<and> op exampleHost defaultOps 20 [''8 / 4 / 2''] [] = Some (Inr (Num 1))"
proof -
  note T = tier_chain_left_assoc[where h = exampleHost and ops = defaultOps and strs = "[''8 / 4 / 2'']"
      and vals = "[]" and n = "10 + 0" and i = 0 and cur = "(0, 0)" and operand = "Lit (Num 8)"
      and ?c1.0 = "(0, 2)" and sp = "BinOp ''/''" and raw = "''/''" and ?c2.0 = "(0, 2)"
      and chain = "[(BinOp ''/'', Lit (Num 4)), (BinOp ''/'', Lit (Num 2))]" and fin = "(0, 9)" and k = 0]
  have H: "0 < length defaultOps
        \<and> parseLevel exampleHost defaultOps [''8 / 4 / 2''] [] (10 + 0) 0 (0, 0) = Some (Inr (Lit (Num 8), (0, 2)))
        \<and> lex exampleHost defaultOps [''8 / 4 / 2''] [] (0, 2) = Inr (OpTok (BinOp ''/'') ''/'', (0, 2))
        \<and> recorded exampleHost defaultOps [''8 / 4 / 2''] [] (10 + 0) 0 (OpTok (BinOp ''/'') ''/'') (0, 2)
            [(BinOp ''/'', Lit (Num 4)), (BinOp ''/'', Lit (Num 2))] (0, 9)"
    using primary_text[of 0] lex_text recorded_text[of 0] by (simp add: defaultOps_def)
  have W: "parseLevel exampleHost defaultOps [''8 / 4 / 2''] [] (Suc (10 + 0)) (Suc 0) (0, 0) =
        Some (Inr (foldl (\<lambda>acc (sp, right). BinNode sp acc right) (Lit (Num 8))
                     [(BinOp ''/'', Lit (Num 4)), (BinOp ''/'', Lit (Num 2))], (0, 9)))"
    by (rule mp[OF conjunct1[OF conjunct2[OF conjunct2[OF conjunct2[OF T]]]] H])
  have N: "Suc (10 + 0) = 11" "Suc 0 = 1" by simp_all
  have 1: "parseLevel exampleHost defaultOps [''8 / 4 / 2''] [] 11 1 (0, 0) =
     Some (Inr (BinNode (BinOp ''/'') (BinNode (BinOp ''/'') (Lit (Num 8)) (Lit (Num 4))) (Lit (Num 2)), (0, 9)))"
    using W unfolding N by simp
  have "op exampleHost defaultOps (20 + 0) [''8 / 4 / 2''] [] = Some (Inr (Num 1))"
    by (rule conjunct1[OF conjunct2[OF conjunct2[OF conjunct2[OF conjunct2[OF conjunct2[OF conjunct2[OF conjunct2[OF conjunct2[OF conjunct2[OF T]]]]]]]]]])
  then have 2: "op exampleHost defaultOps 20 [''8 / 4 / 2''] [] = Some (Inr (Num 1))" by simp
  from 1 2 eval_div_text eval_div_right show ?thesis by simp
qed

text \<open>
  What holds of C7: with the default table \<open>A - -B\<close> parses as the binary node of \<open>-\<close>
  over \<open>A\<close> and the unary node of \<open>-\<close> over \<open>B\<close>; at the primary level an operator token
  that is not \<open>(\<close> and whose spec is unary, or whose text is the symbol of a unary spec of
  the table, is consumed and its operand is parsed at the last level, giving a unary node
  with that spec; a unary node evaluates its operand and calls the operand's method with
  no arguments, and for an operand other than \<open>null\<close> that does not expose the method it
  throws the operator error.
\<close>

lemma unary_minus:
  "(A \<noteq> Undefined \<and> B \<noteq> Undefined \<longrightarrow>
      parseLevel h defaultOps [[], '' - -'', []] [A, B] (20 + k) (length defaultOps) (0, 0)
        = Some (Inr (BinNode (BinOp ''-'') (Lit A) (UnNode (UnOp ''-'') (Lit B)), (3, 0))))
   \<and> (lex h ops strs vals cur = Inr (OpTok sp raw, c1) \<and> raw \<noteq> ''(''
        \<and> (isUn sp \<and> u = sp \<or> \<not> isUn sp \<and> UnOp raw \<in> set (concat ops) \<and> u = UnOp raw)
        \<and> advance h ops strs vals c1 = Inr c2 \<longrightarrow>
      parseLevel h ops strs vals (Suc n) 0 cur =
        bindP (parseLevel h ops strs vals n (length ops) c2) (\<lambda>(expr, c). Some (Inr (UnNode u expr, c))))
   \<and> evalOps h (UnNode (UnOp symb) operand) = bindR (evalOps h operand) (\<lambda>right. evalUn h symb right)
   \<and> (inst h r (''operator'' @ symb) = Some f \<longrightarrow> evalUn h symb (Obj r) = call f [])
   \<and> (v \<noteq> Null \<and> (\<forall>r. v = Obj r \<longrightarrow> inst h r (''operator'' @ symb) = None) \<longrightarrow>
        (\<exists>d. toErrorDisplay h v = Inr d
           \<and> evalUn h symb v = Inl (Error (''Operator error: operator'' @ symb @ '' is not a callable on '' @ d))))"
proof -
  have "lex h ops strs vals cur = Inr (OpTok sp raw, c1) \<and> raw \<noteq> ''(''
        \<and> (isUn sp \<and> u = sp \<or> \<not> isUn sp \<and> UnOp raw \<in> set (concat ops) \<and> u = UnOp raw)
        \<and> advance h ops strs vals c1 = Inr c2 \<longrightarrow>
      parseLevel h ops strs vals (Suc n) 0 cur =
        bindP (parseLevel h ops strs vals n (length ops) c2) (\<lambda>(expr, c). Some (Inr (UnNode u expr, c)))"
    using primary_unary[of h ops strs vals cur sp raw c1 u c2 n] unarySpec_iff[of ops sp raw u]
    by blast
  moreover have "v \<noteq> Null \<and> (\<forall>r. v = Obj r \<longrightarrow> inst h r (''operator'' @ symb) = None) \<longrightarrow>
        (\<exists>d. toErrorDisplay h v = Inr d
           \<and> evalUn h symb v = Inl (Error (''Operator error: operator'' @ symb @ '' is not a callable on '' @ d)))"
    using evalUn_not_exposed[of v h symb] by blast
  moreover have "A \<noteq> Undefined \<and> B \<noteq> Undefined \<longrightarrow>
      parseLevel h defaultOps [[], '' - -'', []] [A, B] (20 + k) (length defaultOps) (0, 0)
        = Some (Inr (BinNode (BinOp ''-'') (Lit A) (UnNode (UnOp ''-'') (Lit B)), (3, 0)))"
    using parse_unary[of A B h k] by simp
  moreover have "inst h r (''operator'' @ symb) = Some f \<longrightarrow> evalUn h symb (Obj r) = call f []"
    using evalUn_exposed[of h r symb f] by simp
  ultimately show ?thesis by simp
qed

text \<open>
  C7 at an operand that is \<open>null\<close>: \<open>-null\<close> parses to a unary node, and evaluation
  raises the host's \<open>TypeError\<close> (from \<open>OP in node\<close> in \<open>evalOps\<close>; the test
  \<open>op in right\<close> would raise it as well), not the operator error.
\<close>

theorem unary_operand_null:
  "parseLevel exampleHost defaultOps [''-'', []] [Null] 20 (length defaultOps) (0, 0)
     = Some (Inr (UnNode (UnOp ''-'') (Lit Null), (2, 0)))
   \<and> evalOps exampleHost (UnNode (UnOp ''-'') (Lit Null)) = Inl TypeError
   \<and> evalUn exampleHost ''-'' Null = Inl TypeError
   \<and> op exampleHost defaultOps 20 [''-'', []] [Null] = Some (Inl TypeError)"
proof -
  have P: "parseLevel exampleHost defaultOps [''-'', []] [Null] 20 (length defaultOps) (0, 0)
     = Some (Inr (UnNode (UnOp ''-'') (Lit Null), (2, 0)))"
    using parse_unary_null[of exampleHost 0] by simp
  have E: "evalOps exampleHost (UnNode (UnOp ''-'') (Lit Null)) = Inl TypeError"
    by (simp add: eval_eval)
  from op_of_parse[OF P] E evalUn_Null[of exampleHost "''-''"] P show ?thesis by simp
qed

section \<open>Argument lists\<close>

lemma primary_call:
  assumes "lex h ops strs vals cur = Inr (LitTok v, c1)" and "v \<noteq> Undefined"
    and "advance h ops strs vals c1 = Inr c2"
    and "lex h ops strs vals c2 = Inr (OpTok (FnOp a b) a, c3)"
    and "advance h ops strs vals c3 = Inr c4"
    and "lex h ops strs vals c4 = Inr (tok, c5)"
  shows "parseLevel h ops strs vals (Suc n) 0 cur = parseArgs h ops strs vals n b v [] tok c5"
  using assms by (simp add: bindE_def)

lemma args_done:
  "closes tok closing = Some sp \<Longrightarrow>
   parseArgs h ops strs vals (Suc n) closing v args tok cur = Some (Inr (CallNode sp v args, cur))"
  by simp

lemma args_step_op:
  assumes "closes tok closing = None"
    and "parseLevel h ops strs vals n (length ops) cur = Some (Inr (arg, c1))"
    and "lex h ops strs vals c1 = Inr (OpTok sp raw, c2)"
  shows "parseArgs h ops strs vals (Suc n) closing v args tok cur =
     (if raw = '','' then
        bindE (advance h ops strs vals c2) (\<lambda>c.
        bindE (lex h ops strs vals c) (\<lambda>(t, c'). parseArgs h ops strs vals n closing v (args @ [arg]) t c'))
      else if raw = closing then Some (Inr (CallNode sp v (args @ [arg]), c2))
      else if isUn sp \<or> raw = ''('' then parseArgs h ops strs vals n closing v (args @ [arg]) (OpTok sp raw) c2
      else Some (Inl (Error (''Syntax error: expected either '' @ sq @ '','' @ sq @ '' or '' @ sq @ closing @ sq
                             @ '', got '' @ sq @ raw @ sq))))"
  using assms by (simp add: bindE_def bindP_def throw_def)

lemma args_step_lit:
  assumes "closes tok closing = None"
    and "parseLevel h ops strs vals n (length ops) cur = Some (Inr (arg, c1))"
    and "lex h ops strs vals c1 = Inr (LitTok w, c2)"
  shows "parseArgs h ops strs vals (Suc n) closing v args tok cur =
           Some (Inl (Error (''Syntax error: expected '' @ sq @ closing @ sq)))"
  using assms by (simp add: bindE_def bindP_def throw_def)

lemma eval_index:
  assumes "i \<noteq> Null" and "j \<noteq> Null" and "inst h m ''operator[]'' = Some f"
  shows "evalOps h (CallNode (FnOp ''['' '']'') (Obj m) [Lit i, Lit j]) = call f [i, j]"
  using assms by (simp add: eval_eval evalCall_def)

lemma eval_call:
  assumes "inst h m ''operator()'' = Some g"
  shows "evalOps h (CallNode (FnOp ''('' '')'') (Obj m) []) = call g []"
  using assms by (simp add: eval_eval evalCall_def)

text \<open>
  C8, as the code has it. A literal that is not \<open>undefined\<close> and is followed by the
  opening symbol of a bracket spec starts an argument list. The list ends, with a call
  node, at a token whose text is the closing symbol, at once (no arguments) or after an
  argument. Each argument is parsed at the last level. After an argument: a comma is
  consumed; the closing symbol ends the list; an operator token whose spec is unary or
  whose text is \<open>(\<close> is left in place and the next argument is parsed with no separator;
  any other operator token throws the error that names the comma, the closing symbol and
  the token; a literal token throws the error that names the closing symbol. With the
  default table, \<open>M[i, j]\<close> evaluates to \<open>M\<close>'s \<open>operator[]\<close> applied to \<open>(i, j)\<close> and
  \<open>F()\<close> to \<open>F\<close>'s \<open>operator()\<close> applied to no arguments, for values that are not
  \<open>undefined\<close> or \<open>null\<close>.
\<close>

theorem call_argument_list:
  "(lex h ops strs vals cur = Inr (LitTok v, c1) \<and> v \<noteq> Undefined
      \<and> advance h ops strs vals c1 = Inr c2
      \<and> lex h ops strs vals c2 = Inr (OpTok (FnOp a b) a, c3)
      \<and> advance h ops strs vals c3 = Inr c4
      \<and> lex h ops strs vals c4 = Inr (tok0, c5) \<longrightarrow>
      parseLevel h ops strs vals (Suc n) 0 cur = parseArgs h ops strs vals n b v [] tok0 c5)
   \<and> (closes tok closing = Some sp \<longrightarrow>
        parseArgs h ops strs vals (Suc n) closing v args tok cur = Some (Inr (CallNode sp v args, cur)))
   \<and> (closes tok closing = None
        \<and> parseLevel h ops strs vals n (length ops) cur = Some (Inr (arg, d1))
        \<and> lex h ops strs vals d1 = Inr (OpTok sp raw, d2) \<longrightarrow>
        parseArgs h ops strs vals (Suc n) closing v args tok cur =
          (if raw = '','' then
             bindE (advance h ops strs vals d2) (\<lambda>c.
             bindE (lex h ops strs vals c) (\<lambda>(t, c'). parseArgs h ops strs vals n closing v (args @ [arg]) t c'))
           else if raw = closing then Some (Inr (CallNode sp v (args @ [arg]), d2))
           else if isUn sp \<or> raw = ''('' then
             parseArgs h ops strs vals n closing v (args @ [arg]) (OpTok sp raw) d2
           else Some (Inl (Error (''Syntax error: expected either '' @ sq @ '','' @ sq @ '' or '' @ sq @ closing @ sq
                                  @ '', got '' @ sq @ raw @ sq)))))
   \<and> (closes tok closing = None
        \<and> parseLevel h ops strs vals n (length ops) cur = Some (Inr (arg, d1))
        \<and> lex h ops strs vals d1 = Inr (LitTok w, d2) \<longrightarrow>
        parseArgs h ops strs vals (Suc n) closing v args tok cur =
          Some (Inl (Error (''Syntax error: expected '' @ sq @ closing @ sq))))
   \<and> (i \<noteq> Undefined \<and> i \<noteq> Null \<and> j \<noteq> Undefined \<and> j \<noteq> Null \<and> inst h m ''operator[]'' = Some f \<longrightarrow>
        op h defaultOps (20 + k) [[], ''['', '', '', '']''] [Obj m, i, j] = Some (call f [i, j]))
   \<and> (inst h m ''operator()'' = Some g \<longrightarrow>
        op h defaultOps (20 + k) [[], ''()''] [Obj m] = Some (call g []))"
proof -
  have 1: "lex h ops strs vals cur = Inr (LitTok v, c1) \<and> v \<noteq> Undefined
      \<and> advance h ops strs vals c1 = Inr c2
      \<and> lex h ops strs vals c2 = Inr (OpTok (FnOp a b) a, c3)
      \<and> advance h ops strs vals c3 = Inr c4
      \<and> lex h ops strs vals c4 = Inr (tok0, c5) \<longrightarrow>
      parseLevel h ops strs vals (Suc n) 0 cur = parseArgs h ops strs vals n b v [] tok0 c5"
    using primary_call[of h ops strs vals cur v c1 c2 a b c3 c4 tok0 c5 n] by blast
  have 2: "closes tok closing = Some sp \<longrightarrow>
        parseArgs h ops strs vals (Suc n) closing v args tok cur = Some (Inr (CallNode sp v args, cur))"
    by simp
  have 3: "closes tok closing = None
        \<and> parseLevel h ops strs vals n (length ops) cur = Some (Inr (arg, d1))
        \<and> lex h ops strs vals d1 = Inr (OpTok sp raw, d2) \<longrightarrow>
        parseArgs h ops strs vals (Suc n) closing v args tok cur =
          (if raw = '','' then
             bindE (advance h ops strs vals d2) (\<lambda>c.
             bindE (lex h ops strs vals c) (\<lambda>(t, c'). parseArgs h ops strs vals n closing v (args @ [arg]) t c'))
           else if raw = closing then Some (Inr (CallNode sp v (args @ [arg]), d2))
           else if isUn sp \<or> raw = ''('' then
             parseArgs h ops strs vals n closing v (args @ [arg]) (OpTok sp raw) d2
           else Some (Inl (Error (''Syntax error: expected either '' @ sq @ '','' @ sq @ '' or '' @ sq @ closing @ sq
                                  @ '', got '' @ sq @ raw @ sq))))"
    using args_step_op[of tok closing h ops strs vals n cur arg d1 sp raw d2 v args] by blast
  have 4: "closes tok closing = None
        \<and> parseLevel h ops strs vals n (length ops) cur = Some (Inr (arg, d1))
        \<and> lex h ops strs vals d1 = Inr (LitTok w, d2) \<longrightarrow>
        parseArgs h ops strs vals (Suc n) closing v args tok cur =
          Some (Inl (Error (''Syntax error: expected '' @ sq @ closing @ sq)))"
    using args_step_lit[of tok closing h ops strs vals n cur arg d1 w d2 v args] by blast
  have 5: "i \<noteq> Undefined \<and> i \<noteq> Null \<and> j \<noteq> Undefined \<and> j \<noteq> Null \<and> inst h m ''operator[]'' = Some f \<longrightarrow>
        op h defaultOps (20 + k) [[], ''['', '', '', '']''] [Obj m, i, j] = Some (call f [i, j])"
  proof
    assume A: "i \<noteq> Undefined \<and> i \<noteq> Null \<and> j \<noteq> Undefined \<and> j \<noteq> Null \<and> inst h m ''operator[]'' = Some f"
    then have "parseLevel h defaultOps [[], ''['', '', '', '']''] [Obj m, i, j] (20 + k) (length defaultOps) (0, 0)
         = Some (Inr (CallNode (FnOp ''['' '']'') (Obj m) [Lit i, Lit j], (3, 0)))"
      using parse_index[of "Obj m" i j h k] by simp
    from op_of_parse[OF this] A eval_index[of i j h m f]
    show "op h defaultOps (20 + k) [[], ''['', '', '', '']''] [Obj m, i, j] = Some (call f [i, j])"
      by simp
  qed
  have 6: "inst h m ''operator()'' = Some g \<longrightarrow>
        op h defaultOps (20 + k) [[], ''()''] [Obj m] = Some (call g [])"
  proof
    assume A: "inst h m ''operator()'' = Some g"
    have "parseLevel h defaultOps [[], ''()''] [Obj m] (20 + k) (length defaultOps) (0, 0)
         = Some (Inr (CallNode (FnOp ''('' '')'') (Obj m) [], (1, 1)))"
      using parse_call[of "Obj m" h k] by simp
    from op_of_parse[OF this] eval_call[OF A]
    show "op h defaultOps (20 + k) [[], ''()''] [Obj m] = Some (call g [])"
      by simp
  qed
  from 1 2 3 4 5 6 show ?thesis by (intro conjI)
qed

theorem call_argument_list_witness:
  "inst exampleHost 4 ''operator[]'' = Some (\<lambda>args. Inr (last args))
   \<and> op exampleHost defaultOps 20 [[], ''['', '', '', '']''] [Obj 4, Num 5, Num 7] = Some (Inr (Num 7))
   \<and> op exampleHost defaultOps 20 [[], ''()''] [Obj 4] = Some (Inr (Num 0))"
proof -
  note T = call_argument_list[where h = exampleHost and m = 4 and i = "Num 5" and j = "Num 7" and k = 0
      and f = "\<lambda>args. Inr (last args)" and g = "\<lambda>args. Inr (Num (length args))"]
  have I: "inst exampleHost 4 ''operator[]'' = Some (\<lambda>args. Inr (last args))"
    "inst exampleHost 4 ''operator()'' = Some (\<lambda>args. Inr (Num (length args)))"
    by (simp_all add: exampleHost_def)
  have A: "op exampleHost defaultOps (20 + 0) [[], ''['', '', '', '']''] [Obj 4, Num 5, Num 7]
             = Some (call (\<lambda>args. Inr (last args)) [Num 5, Num 7])"
    by (rule mp[OF conjunct1[OF conjunct2[OF conjunct2[OF conjunct2[OF conjunct2[OF T]]]]]]) (simp add: I)
  have B: "op exampleHost defaultOps (20 + 0) [[], ''()''] [Obj 4]
             = Some (call (\<lambda>args. Inr (Num (length args))) [])"
    by (rule mp[OF conjunct2[OF conjunct2[OF conjunct2[OF conjunct2[OF conjunct2[OF T]]]]]]) (simp add: I)
  from A B I show ?thesis by (simp add: call_def)
qed

text \<open>
  C8 as stated fails: in \<open>M[(1) (2)]\<close> the first argument ends before the second
  \<open>(\<close>, a token that is neither the comma nor \<open>]\<close>; no error is thrown, the list goes
  on, and the call gets the two arguments 1 and 2.
\<close>

theorem call_argument_list_counterexample:
  "parseLevel exampleHost defaultOps [[], ''[(1) (2)]''] [Obj 4] 20 (length defaultOps) (1, 1)
     = Some (Inr (Lit (Num 1), (1, 5)))
   \<and> lex exampleHost defaultOps [[], ''[(1) (2)]''] [Obj 4] (1, 5) = Inr (OpTok (FnOp ''('' '')'') ''('', (1, 5))
   \<and> parseLevel exampleHost defaultOps [[], ''[(1) (2)]''] [Obj 4] 20 (length defaultOps) (0, 0)
     = Some (Inr (CallNode (FnOp ''['' '']'') (Obj 4) [Lit (Num 1), Lit (Num 2)], (1, 8)))
   \<and> op exampleHost defaultOps 20 [[], ''[(1) (2)]''] [Obj 4] = Some (Inr (Num 2))"
proof -
  have P: "parseLevel exampleHost defaultOps [[], ''[(1) (2)]''] [Obj 4] 20 (length defaultOps) (0, 0)
     = Some (Inr (CallNode (FnOp ''['' '']'') (Obj 4) [Lit (Num 1), Lit (Num 2)], (1, 8)))"
    using parse_no_separator_text[of 0] by simp
  have E: "evalOps exampleHost (CallNode (FnOp ''['' '']'') (Obj 4) [Lit (Num 1), Lit (Num 2)]) = Inr (Num 2)"
    by (simp add: eval_eval evalCall_def exampleHost_def call_def)
  have F: "parseLevel exampleHost defaultOps [[], ''[(1) (2)]''] [Obj 4] 20 (length defaultOps) (1, 1)
     = Some (Inr (Lit (Num 1), (1, 5)))"
    using parse_first_arg[of 0] by simp
  from op_of_parse[OF P] E F P lex_after_first_arg show ?thesis by simp
qed

section \<open>Undefined holes and trailing input\<close>

text \<open>
  C9. At the end of the input \<open>lex\<close> returns the literal token of \<open>undefined\<close>, past
  the last fragment as well as at the end of the last one, which has no hole behind it;
  at a hole whose value is \<open>undefined\<close> it returns the same token. An expression that
  starts with such a hole, a single hole included, throws \<open>expected value\<close> for every
  table. Where an operand is expected, at any level, the token throws \<open>expected value\<close>;
  where a tier looks for its operator, the token ends the level, which returns its
  operand. No tree the parser returns holds \<open>undefined\<close> as a literal or a callee.
\<close>

theorem undefined_hole_is_end_of_input:
  "(length strs \<le> si \<longrightarrow> lex h ops strs vals (si, ci) = Inr (LitTok Undefined, (si, ci)))
   \<and> (si < length strs \<and> length (strs ! si) \<le> skipSpace (strs ! si) ci
        \<and> (length vals \<le> si \<or> vals ! si = Undefined) \<longrightarrow>
        lex h ops strs vals (si, ci) = Inr (LitTok Undefined, (si, skipSpace (strs ! si) ci)))
   \<and> ((\<forall>c\<in>set s0. isSpace c) \<longrightarrow>
        op h ops (Suc (length ops + k)) (s0 # rest) (Undefined # others)
          = Some (Inl (Error ''Syntax error: expected value'')))
   \<and> (lex h ops strs vals cur = Inr (LitTok Undefined, c1) \<and> lvl \<le> length ops \<longrightarrow>
        parseLevel h ops strs vals (Suc (lvl + k)) lvl cur = Some (Inl (Error ''Syntax error: expected value'')))
   \<and> (i < length ops \<and> parseLevel h ops strs vals n i cur = Some (Inr (operand, c1))
        \<and> lex h ops strs vals c1 = Inr (LitTok Undefined, c2) \<longrightarrow>
        (\<exists>c3. parseLevel h ops strs vals (Suc n) (Suc i) cur = Some (Inr (operand, c3))))
   \<and> (parseLevel h ops strs vals fuel lvl cur = Some (Inr (t, c)) \<longrightarrow> Undefined \<notin> set (literals t))"
proof -
  have 1: "length strs \<le> si \<longrightarrow> lex h ops strs vals (si, ci) = Inr (LitTok Undefined, (si, ci))"
    using lex_end_of_input[of strs si h ops vals ci] by blast
  have 2: "si < length strs \<and> length (strs ! si) \<le> skipSpace (strs ! si) ci
        \<and> (length vals \<le> si \<or> vals ! si = Undefined) \<longrightarrow>
        lex h ops strs vals (si, ci) = Inr (LitTok Undefined, (si, skipSpace (strs ! si) ci))"
  proof
    assume A: "si < length strs \<and> length (strs ! si) \<le> skipSpace (strs ! si) ci
        \<and> (length vals \<le> si \<or> vals ! si = Undefined)"
    then have "hole vals si = Undefined" by (auto simp: hole_def)
    with A lex_end_of_fragment[of si strs ci h ops vals]
    show "lex h ops strs vals (si, ci) = Inr (LitTok Undefined, (si, skipSpace (strs ! si) ci))"
      by simp
  qed
  have 3: "(\<forall>c\<in>set s0. isSpace c) \<longrightarrow>
        op h ops (Suc (length ops + k)) (s0 # rest) (Undefined # others)
          = Some (Inl (Error ''Syntax error: expected value''))"
    using single_hole[of s0 h ops k rest others] by blast
  have 4: "lex h ops strs vals cur = Inr (LitTok Undefined, c1) \<and> lvl \<le> length ops \<longrightarrow>
        parseLevel h ops strs vals (Suc (lvl + k)) lvl cur = Some (Inl (Error ''Syntax error: expected value''))"
    using operand_Undefined[of h ops strs vals cur c1 lvl k] by blast
  have 5: "i < length ops \<and> parseLevel h ops strs vals n i cur = Some (Inr (operand, c1))
        \<and> lex h ops strs vals c1 = Inr (LitTok Undefined, c2) \<longrightarrow>
        (\<exists>c3. parseLevel h ops strs vals (Suc n) (Suc i) cur = Some (Inr (operand, c3)))"
    using tier_Undefined[of i ops h strs vals n cur operand c1 c2] by blast
  have 6: "parseLevel h ops strs vals fuel lvl cur = Some (Inr (t, c)) \<longrightarrow> Undefined \<notin> set (literals t)"
    using parserOk_levelD[OF parserOk_all, of h ops strs vals fuel lvl cur t c] by blast
  from 1 2 3 4 5 6 show ?thesis by (intro conjI)
qed

theorem undefined_hole_is_end_of_input_witness:
  "op exampleHost defaultOps 5 [[], []] [Undefined] = Some (Inl (Error ''Syntax error: expected value''))
   \<and> op exampleHost defaultOps 5 [''  '', []] [Undefined] = Some (Inl (Error ''Syntax error: expected value''))
   \<and> lex exampleHost defaultOps [[], []] [Undefined] (0, 0) = Inr (LitTok Undefined, (0, 0))
   \<and> lex exampleHost defaultOps [[], []] [Undefined] (1, 0) = Inr (LitTok Undefined, (1, 0))"
proof -
  note T = undefined_hole_is_end_of_input[where h = exampleHost and ops = defaultOps and k = 0
      and rest = "[[]]" and others = "[]"]
  have A: "op exampleHost defaultOps (Suc (length defaultOps + 0)) ([] # [[]]) (Undefined # [])
          = Some (Inl (Error ''Syntax error: expected value''))"
    by (rule mp[OF conjunct1[OF conjunct2[OF conjunct2[OF T[where ?s0.0 = "[]"]]]]]) simp
  have B: "op exampleHost defaultOps (Suc (length defaultOps + 0)) (''  '' # [[]]) (Undefined # [])
          = Some (Inl (Error ''Syntax error: expected value''))"
    by (rule mp[OF conjunct1[OF conjunct2[OF conjunct2[OF T[where ?s0.0 = "''  ''"]]]]]) (simp add: isSpace_def)
  have L: "Suc (length defaultOps + 0) = 5" by (simp add: defaultOps_def)
  have C: "lex exampleHost defaultOps [[], []] [Undefined] (0, 0) = Inr (LitTok Undefined, (0, 0))"
    "lex exampleHost defaultOps [[], []] [Undefined] (1, 0) = Inr (LitTok Undefined, (1, 0))"
    by (simp_all add: lex_eval)
  from A B C show ?thesis unfolding L by simp
qed

text \<open>
  C10. \<open>op\<close> evaluates the tree the last level returns and drops the cursor, wherever
  it stands. With the default table, \<open>M[i] + X\<close> parses to the call node alone: the
  cursor is left at the closing \<open>]\<close>, which the argument loop does not consume and
  which is no binary operator of any tier, and the result is that of \<open>M[i]\<close>, whatever
  \<open>X\<close> is. Likewise \<open>A ) + B\<close> parses to \<open>A\<close> with the cursor at the stray \<open>)\<close>.
\<close>

theorem trailing_input_ignored:
  "(parseLevel h ops strs vals fuel (length ops) (0, 0) = Some (Inr (tree, cur)) \<longrightarrow>
      op h ops fuel strs vals = Some (evalOps h tree))
   \<and> (M \<noteq> Undefined \<and> i \<noteq> Undefined \<longrightarrow>
        parseLevel h defaultOps [[], ''['', ''] + '', []] [M, i, X] (20 + k) (length defaultOps) (0, 0)
          = Some (Inr (CallNode (FnOp ''['' '']'') M [Lit i], (2, 0)))
        \<and> lex h defaultOps [[], ''['', ''] + '', []] [M, i, X] (2, 0) = Inr (OpTok (FnOp ''['' '']'') '']'', (2, 0))
        \<and> tierHas (concat defaultOps) '']'' = False
        \<and> op h defaultOps (20 + k) [[], ''['', ''] + '', []] [M, i, X]
            = op h defaultOps (20 + k) [[], ''['', '']''] [M, i])
   \<and> (A \<noteq> Undefined \<longrightarrow>
        parseLevel h defaultOps [[], '' ) + '', []] [A, B] (20 + k) (length defaultOps) (0, 0)
          = Some (Inr (Lit A, (1, 1)))
        \<and> lex h defaultOps [[], '' ) + '', []] [A, B] (1, 1) = Inr (OpTok (FnOp ''('' '')'') '')'', (1, 1))
        \<and> op h defaultOps (20 + k) [[], '' ) + '', []] [A, B] = Some (evalLit A))"
proof -
  have 1: "parseLevel h ops strs vals fuel (length ops) (0, 0) = Some (Inr (tree, cur)) \<longrightarrow>
      op h ops fuel strs vals = Some (evalOps h tree)"
    using op_of_parse[of h ops strs vals fuel tree cur] by blast
  have 2: "M \<noteq> Undefined \<and> i \<noteq> Undefined \<longrightarrow>
        parseLevel h defaultOps [[], ''['', ''] + '', []] [M, i, X] (20 + k) (length defaultOps) (0, 0)
          = Some (Inr (CallNode (FnOp ''['' '']'') M [Lit i], (2, 0)))
        \<and> lex h defaultOps [[], ''['', ''] + '', []] [M, i, X] (2, 0) = Inr (OpTok (FnOp ''['' '']'') '']'', (2, 0))
        \<and> tierHas (concat defaultOps) '']'' = False
        \<and> op h defaultOps (20 + k) [[], ''['', ''] + '', []] [M, i, X]
            = op h defaultOps (20 + k) [[], ''['', '']''] [M, i]"
  proof
    assume A: "M \<noteq> Undefined \<and> i \<noteq> Undefined"
    then have P: "parseLevel h defaultOps [[], ''['', ''] + '', []] [M, i, X] (20 + k) (length defaultOps) (0, 0)
          = Some (Inr (CallNode (FnOp ''['' '']'') M [Lit i], (2, 0)))"
      and Q: "parseLevel h defaultOps [[], ''['', '']''] [M, i] (20 + k) (length defaultOps) (0, 0)
          = Some (Inr (CallNode (FnOp ''['' '']'') M [Lit i], (2, 0)))"
      using parse_index_tail[of M i h X k] parse_index_alone[of M i h k] by simp_all
    have T: "tierHas (concat defaultOps) '']'' = False"
      by (simp add: tierHas_def defaultOps_def)
    from op_of_parse[OF P] op_of_parse[OF Q] P T lex_tail[of h M i X]
    show "parseLevel h defaultOps [[], ''['', ''] + '', []] [M, i, X] (20 + k) (length defaultOps) (0, 0)
          = Some (Inr (CallNode (FnOp ''['' '']'') M [Lit i], (2, 0)))
        \<and> lex h defaultOps [[], ''['', ''] + '', []] [M, i, X] (2, 0) = Inr (OpTok (FnOp ''['' '']'') '']'', (2, 0))
        \<and> tierHas (concat defaultOps) '']'' = False
        \<and> op h defaultOps (20 + k) [[], ''['', ''] + '', []] [M, i, X]
            = op h defaultOps (20 + k) [[], ''['', '']''] [M, i]"
      by simp
  qed
  have 3: "A \<noteq> Undefined \<longrightarrow>
        parseLevel h defaultOps [[], '' ) + '', []] [A, B] (20 + k) (length defaultOps) (0, 0)
          = Some (Inr (Lit A, (1, 1)))
        \<and> lex h defaultOps [[], '' ) + '', []] [A, B] (1, 1) = Inr (OpTok (FnOp ''('' '')'') '')'', (1, 1))
        \<and> op h defaultOps (20 + k) [[], '' ) + '', []] [A, B] = Some (evalLit A)"
  proof
    assume A: "A \<noteq> Undefined"
    then have P: "parseLevel h defaultOps [[], '' ) + '', []] [A, B] (20 + k) (length defaultOps) (0, 0)
          = Some (Inr (Lit A, (1, 1)))"
      using parse_stray_paren[of A h B k] by simp
    from op_of_parse[OF P] P lex_stray[of h A B]
    show "parseLevel h defaultOps [[], '' ) + '', []] [A, B] (20 + k) (length defaultOps) (0, 0)
          = Some (Inr (Lit A, (1, 1)))
        \<and> lex h defaultOps [[], '' ) + '', []] [A, B] (1, 1) = Inr (OpTok (FnOp ''('' '')'') '')'', (1, 1))
        \<and> op h defaultOps (20 + k) [[], '' ) + '', []] [A, B] = Some (evalLit A)"
      by simp
  qed
  from 1 2 3 show ?thesis by (intro conjI)
qed

theorem trailing_input_ignored_witness:
  "op exampleHost defaultOps 20 [[], ''['', ''] + '', []] [Obj 4, Num 7, Obj 3] = Some (Inr (Num 7))
   \<and> op exampleHost defaultOps 20 [[], ''['', '']''] [Obj 4, Num 7] = Some (Inr (Num 7))
   \<and> op exampleHost defaultOps 20 [[], '' ) + '', []] [Num 7, Num 5] = Some (Inr (Num 7))"
proof -
  note T = trailing_input_ignored[where h = exampleHost and M = "Obj 4" and i = "Num 7" and X = "Obj 3"
      and A = "Num 7" and B = "Num 5" and k = 0]
  have U: "parseLevel exampleHost defaultOps [[], ''['', ''] + '', []] [Obj 4, Num 7, Obj 3] (20 + 0) (length defaultOps) (0, 0)
          = Some (Inr (CallNode (FnOp ''['' '']'') (Obj 4) [Lit (Num 7)], (2, 0)))
        \<and> lex exampleHost defaultOps [[], ''['', ''] + '', []] [Obj 4, Num 7, Obj 3] (2, 0) = Inr (OpTok (FnOp ''['' '']'') '']'', (2, 0))
        \<and> tierHas (concat defaultOps) '']'' = False
        \<and> op exampleHost defaultOps (20 + 0) [[], ''['', ''] + '', []] [Obj 4, Num 7, Obj 3]
            = op exampleHost defaultOps (20 + 0) [[], ''['', '']''] [Obj 4, Num 7]"
    by (rule mp[OF conjunct1[OF conjunct2[OF T]]]) simp
  have V: "parseLevel exampleHost defaultOps [[], '' ) + '', []] [Num 7, Num 5] (20 + 0) (length defaultOps) (0, 0)
          = Some (Inr (Lit (Num 7), (1, 1)))
        \<and> lex exampleHost defaultOps [[], '' ) + '', []] [Num 7, Num 5] (1, 1) = Inr (OpTok (FnOp ''('' '')'') '')'', (1, 1))
        \<and> op exampleHost defaultOps (20 + 0) [[], '' ) + '', []] [Num 7, Num 5] = Some (evalLit (Num 7))"
    by (rule mp[OF conjunct2[OF conjunct2[OF T]]]) simp
  have W: "op exampleHost defaultOps (20 + 0) [[], ''['', ''] + '', []] [Obj 4, Num 7, Obj 3]
             = Some (evalOps exampleHost (CallNode (FnOp ''['' '']'') (Obj 4) [Lit (Num 7)]))"
    by (rule mp[OF conjunct1[OF T[where ops = defaultOps and fuel = "20 + 0"
            and strs = "[[], ''['', ''] + '', []]" and vals = "[Obj 4, Num 7, Obj 3]"]]])
       (rule conjunct1[OF U])
  have E: "evalOps exampleHost (CallNode (FnOp ''['' '']'') (Obj 4) [Lit (Num 7)]) = Inr (Num 7)"
    by (simp add: eval_eval evalCall_def exampleHost_def call_def)
  from U V W E show ?thesis by (simp add: evalLit_def)
qed

section \<open>A closing symbol found under another spec\<close>

text \<open>
  When a spec declared before the bracket has the bracket's closing symbol, the call
  node carries that spec and is evaluated in the branch of its type, with the array of
  argument nodes as the operand: with a unary \<open>]\<close> declared first, \<open>M[x]\<close> throws the
  operator error of the unary branch, which shows the array; with a binary \<open>]\<close>
  declared first, the closing symbol of \<open>M[]\<close>, which the argument loop leaves in
  place, is read again as a binary operator; in \<open>M[]x\<close> its left operand is the call
  node, which throws the operator error of the binary branch.
\<close>

lemma closing_under_other_spec:
  "processOps [[Spec (UnOp '']'')], [Spec (FnOp ''['' '']'')]] =
     Inr [[UnOp '']''], [FnOp ''['' '']'', UnOp ''('', UnOp '')'', UnOp '','']]
   \<and> parseLevel h [[UnOp '']''], [FnOp ''['' '']'', UnOp ''('', UnOp '')'', UnOp '','']]
         [[], ''['', '']''] [Obj 4, Num x] (20 + k) (Suc (Suc 0)) (0, 0)
       = Some (Inr (CallNode (UnOp '']'') (Obj 4) [Lit (Num x)], (2, 0)))
   \<and> op h [[UnOp '']''], [FnOp ''['' '']'', UnOp ''('', UnOp '')'', UnOp '','']]
         (20 + k) [[], ''['', '']''] [Obj 4, Num x]
       = Some (Inl (Error (''Operator error: operator] is not a callable on '' @ numToString h x)))
   \<and> processOps [[Sym '']''], [Spec (FnOp ''['' '']'')]] =
       Inr [[BinOp '']''], [FnOp ''['' '']'', UnOp ''('', UnOp '')'', UnOp '','']]
   \<and> parseLevel h [[BinOp '']''], [FnOp ''['' '']'', UnOp ''('', UnOp '')'', UnOp '','']]
         [[], ''[]'', []] [Obj 4, Num x] (20 + k) (Suc (Suc 0)) (0, 0)
       = Some (Inr (BinNode (BinOp '']'') (CallNode (BinOp '']'') (Obj 4) []) (Lit (Num x)), (3, 0)))
   \<and> op exampleHost [[BinOp '']''], [FnOp ''['' '']'', UnOp ''('', UnOp '')'', UnOp '','']]
         (20 + k) [[], ''[]'', []] [Obj 4, Num x]
       = Some (Inl (Error (''Operator error: operator] is not a callable on left operand Object or a static function on either operand''
                           @ sq @ ''s types'')))"
proof -
  have P: "parseLevel h [[UnOp '']''], [FnOp ''['' '']'', UnOp ''('', UnOp '')'', UnOp '','']]
         [[], ''['', '']''] [Obj 4, Num x] (20 + k) (Suc (Suc 0)) (0, 0)
       = Some (Inr (CallNode (UnOp '']'') (Obj 4) [Lit (Num x)], (2, 0)))" for h :: "'a host" and x
    by (simp add: parse_eval cong: bindE_weak_cong bindP_weak_cong)
  have Q: "parseLevel h [[BinOp '']''], [FnOp ''['' '']'', UnOp ''('', UnOp '')'', UnOp '','']]
         [[], ''[]'', []] [Obj 4, Num x] (20 + k) (Suc (Suc 0)) (0, 0)
       = Some (Inr (BinNode (BinOp '']'') (CallNode (BinOp '']'') (Obj 4) []) (Lit (Num x)), (3, 0)))"
       for h :: "'a host" and x
    by (simp add: parse_eval cong: bindE_weak_cong bindP_weak_cong)
  have E: "evalOps h (CallNode (UnOp '']'') (Obj 4) [Lit (Num x)]) =
        Inl (Error (''Operator error: operator] is not a callable on '' @ numToString h x))"
    by (simp add: evalUnArray_def arrayDisplay_def)
  have F: "evalOps exampleHost (BinNode (BinOp '']'') (CallNode (BinOp '']'') (Obj 4) []) (Lit (Num x))) =
        Inl (Error (''Operator error: operator] is not a callable on left operand Object or a static function on either operand''
                           @ sq @ ''s types''))"
    by (simp add: eval_eval evalBinArray_def exampleHost_def operr1_def)
  have T: "processOps [[Spec (UnOp '']'')], [Spec (FnOp ''['' '']'')]] =
     Inr [[UnOp '']''], [FnOp ''['' '']'', UnOp ''('', UnOp '')'', UnOp '','']]"
    "processOps [[Sym '']''], [Spec (FnOp ''['' '']'')]] =
     Inr [[BinOp '']''], [FnOp ''['' '']'', UnOp ''('', UnOp '')'', UnOp '','']]"
    by (simp_all add: processOps_def inject_def Let_def)
  have L: "length [[UnOp '']''], [FnOp ''['' '']'', UnOp ''('', UnOp '')'', UnOp '','']] = Suc (Suc 0)"
    "length [[BinOp '']''], [FnOp ''['' '']'', UnOp ''('', UnOp '')'', UnOp '','']] = Suc (Suc 0)"
    by simp_all
  show ?thesis
    unfolding op_def L P Q bindP_simps using T E F by simp
qed

end
